theory Spec2Isabelle
  imports Complex_Main
begin

section \<open>Shipping cost (src/utils/helpers.js, calculateShipping)\<close>

text \<open>
  JavaScript numbers that hold amounts of money, quantities and millisecond
  timestamps are modelled as \<open>int\<close>; review ratings, which are averaged
  and rounded to one decimal, as \<open>real\<close>.

  \<open>shippingRates\<close> is an object literal. Reading \<open>shippingRates[region]\<close>
  finds the eight own keys of the literal, and, for a key that is not an own
  key, the members that every object literal inherits from
  \<open>Object.prototype\<close>; any other key reads \<open>undefined\<close>.
\<close>

datatype js_value =
    JNumber int
  | JUndefined
  | JInherited string
  | JConcat

definition shippingRates :: "(string \<times> int) list" where
  "shippingRates =
     [(''Dhaka'', 60), (''Chittagong'', 100), (''Sylhet'', 120), (''Rajshahi'', 120),
      (''Khulna'', 120), (''Barisal'', 130), (''Rangpur'', 130), (''Mymensingh'', 100)]"

definition object_prototype_members :: "string list" where
  "object_prototype_members =
     [''constructor'', ''toString'', ''toLocaleString'', ''valueOf'', ''hasOwnProperty'',
      ''isPrototypeOf'', ''propertyIsEnumerable'', ''__proto__'', ''__defineGetter__'',
      ''__defineSetter__'', ''__lookupGetter__'', ''__lookupSetter__'']"

definition js_get :: "(string \<times> int) list \<Rightarrow> string \<Rightarrow> js_value" where
  "js_get obj k =
     (case map_of obj k of
        Some v \<Rightarrow> JNumber v
      | None \<Rightarrow> if k \<in> set object_prototype_members then JInherited k else JUndefined)"

fun truthy :: "js_value \<Rightarrow> bool" where
  "truthy (JNumber n) = (n \<noteq> 0)"
| "truthy JUndefined = False"
| "truthy (JInherited k) = True"
| "truthy JConcat = True"

definition js_or :: "js_value \<Rightarrow> js_value \<Rightarrow> js_value" where
  "js_or a b = (if truthy a then a else b)"

text \<open>
  \<open>a + n\<close> for a number \<open>n\<close>: numeric addition when \<open>a\<close> is a number;
  an inherited member (a function or an object) is converted to a string and
  the number is appended to it, which gives a string (\<open>JConcat\<close>, its text
  is not modelled), not a number. \<open>undefined + n\<close> is \<open>NaN\<close>, also not a
  number.
\<close>

fun js_plus :: "js_value \<Rightarrow> int \<Rightarrow> js_value" where
  "js_plus (JNumber a) n = JNumber (a + n)"
| "js_plus JUndefined n = JUndefined"
| "js_plus (JInherited k) n = JConcat"
| "js_plus JConcat n = JConcat"

definition calculateShipping :: "string \<Rightarrow> int \<Rightarrow> js_value" where
  "calculateShipping region itemCount =
     (let baseShipping = js_or (js_get shippingRates region) (JNumber 100);
          additionalFee = max 0 (itemCount - 3) * 20
      in js_plus baseShipping additionalFee)"

text \<open>The table and fallback as the specification words them.\<close>

definition spec_base_rate :: "string \<Rightarrow> int" where
  "spec_base_rate region =
     (if region = ''Dhaka'' then 60
      else if region = ''Chittagong'' then 100
      else if region = ''Sylhet'' then 120
      else if region = ''Rajshahi'' then 120
      else if region = ''Khulna'' then 120
      else if region = ''Barisal'' then 130
      else if region = ''Rangpur'' then 130
      else if region = ''Mymensingh'' then 100
      else 100)"

definition spec_shipping :: "string \<Rightarrow> int \<Rightarrow> int" where
  "spec_shipping region totalItemCount = spec_base_rate region + max 0 (totalItemCount - 3) * 20"

lemma map_of_shippingRates:
  "map_of shippingRates region =
     (if region \<in> set (map fst shippingRates) then Some (spec_base_rate region) else None)"
  by (simp add: shippingRates_def spec_base_rate_def)

lemma calculateShipping_own_or_plain:
  "region \<notin> set object_prototype_members \<Longrightarrow>
   calculateShipping region itemCount = JNumber (spec_shipping region itemCount)"
  by (simp add: calculateShipping_def js_get_def js_or_def map_of_shippingRates spec_shipping_def
      Let_def)
     (simp add: shippingRates_def spec_base_rate_def)


section \<open>Documents (src/models/index.js)\<close>

text \<open>
  The collections hold documents whose single operations are atomic. An
  \<open>object_id\<close> is a stored \<open>ObjectId\<close>, written as its string of 24
  hexadecimal digits. Fields of the schemas that none of the statements below
  depends on are left out (among them the images beyond the first, the
  estimated delivery date, the request's IP address and user agent, a
  review's title and images).
\<close>

type_synonym object_id = string

record product_doc =
  title :: string
  slug :: string
  image_url :: "string option"
  price :: int
  stock :: int
  salesCount :: int
  rating :: real
  reviewCount :: int

record customer_info =
  name :: string
  email :: string
  phone :: string

record shipping_address =
  fullName :: string
  addr_phone :: string
  region :: string
  city :: string
  address :: string

record order_item =
  item_product :: object_id
  item_title :: string
  item_slug :: string
  item_image :: "string option"
  item_price :: int
  item_quantity :: int
  item_variant :: "string option"
  item_subtotal :: int

datatype payment_method = Cod | Bkash | Nagad | Rocket | Card

record payment_details =
  transactionId :: string
  senderNumber :: string
  amount :: int
  verifiedBy :: object_id
  verifiedAt :: int

record timeline_entry =
  tl_status :: string
  tl_message :: string
  tl_timestamp :: int
  tl_updatedBy :: "object_id option"

record courier_info =
  courier_name :: "string option"
  trackingNumber :: "string option"

record return_request =
  requested :: bool
  reason :: string
  return_status :: string

record order_doc =
  order_id :: object_id
  orderNumber :: string
  order_user :: "object_id option"
  order_customer :: customer_info
  order_shippingAddress :: shipping_address
  order_items :: "order_item list"
  subtotal :: int
  shippingCost :: int
  discount :: int
  discountCode :: "string option"
  total :: int
  paymentMethod :: payment_method
  paymentStatus :: string
  paymentDetails :: "payment_details option"
  status :: string
  timeline :: "timeline_entry list"
  courier :: "courier_info option"
  deliveredAt :: "int option"
  returnRequest :: "return_request option"

record review_doc =
  review_id :: object_id
  review_product :: object_id
  review_user :: object_id
  review_order :: "object_id option"
  review_rating :: real
  review_comment :: string
  isVerifiedPurchase :: bool
  review_status :: string
  adminResponse :: "string option"
  adminResponseDate :: "int option"

record db =
  products :: "object_id \<rightharpoonup> product_doc"
  orders :: "order_doc list"
  reviews :: "review_doc list"

text \<open>
  \<open>Model.findOne(query)\<close> returns the first document that matches; the
  document is then changed in place and written back with \<open>save()\<close>, or
  removed with \<open>deleteOne()\<close>. The position in the collection stands for
  the document's identity.
\<close>

fun findIndex :: "('a \<Rightarrow> bool) \<Rightarrow> 'a list \<Rightarrow> nat option" where
  "findIndex P [] = None"
| "findIndex P (x # xs) =
     (if P x then Some 0 else (case findIndex P xs of None \<Rightarrow> None | Some i \<Rightarrow> Some (Suc i)))"

fun deleteAt :: "nat \<Rightarrow> 'a list \<Rightarrow> 'a list" where
  "deleteAt i [] = []"
| "deleteAt 0 (x # xs) = xs"
| "deleteAt (Suc i) (x # xs) = x # deleteAt i xs"

section \<open>Order workflow (src/routes/orders.js)\<close>

text \<open>
  An id arrives in a request as a string. Where a query or a document
  field is typed \<open>ObjectId\<close> by the schema, Mongoose casts the string, and
  a string that is no \<open>ObjectId\<close> makes the call throw a cast error, which
  every handler's \<open>catch\<close> turns into its 500 answer. Which strings cast
  is the library's matter and is a parameter here: \<open>cast s\<close> is the
  \<open>ObjectId\<close> the string \<open>s\<close> stands for, if it stands for one.
\<close>

type_synonym caster = "string \<Rightarrow> object_id option"

record order_request_item =
  productId :: string
  quantity :: int
  variant :: "string option"

record create_order_body =
  body_customer :: "customer_info option"
  body_shippingAddress :: "shipping_address option"
  body_items :: "order_request_item list option"
  body_paymentMethod :: "payment_method option"
  body_discountCode :: "string option"

text \<open>
  What the request does not carry: the clock, the caller, the id the store
  gives a new order, and the order number the schema's \<open>pre('save')\<close> hook
  would generate.
\<close>

record request_env =
  now :: int
  new_id :: object_id
  new_orderNumber :: string
  userId :: "object_id option"

datatype order_response =
    MissingRequiredFields
  | ProductNotFound string
  | InsufficientStock string
  | FailedToCreateOrder
  | OrderPlaced order_doc

text \<open>
  The first loop over the items (lines 31-61): it only reads the products.
  \<open>Product.findById\<close> throws on a \<open>productId\<close> that does not cast.
\<close>

fun price_items ::
  "caster \<Rightarrow> (object_id \<rightharpoonup> product_doc) \<Rightarrow> order_request_item list \<Rightarrow> int \<Rightarrow> order_item list
     \<Rightarrow> order_response + (int \<times> order_item list)" where
  "price_items cast ps [] sub acc = Inr (sub, acc)"
| "price_items cast ps (it # its) sub acc =
     (case cast (productId it) of
        None \<Rightarrow> Inl FailedToCreateOrder
      | Some pid \<Rightarrow>
          (case ps pid of
             None \<Rightarrow> Inl (ProductNotFound (productId it))
           | Some p \<Rightarrow>
               if stock p < quantity it then Inl (InsufficientStock (title p))
               else
                 (let itemSubtotal = price p * quantity it
                  in price_items cast ps its (sub + itemSubtotal)
                       (acc @ [\<lparr>item_product = pid, item_title = title p,
                                item_slug = slug p, item_image = image_url p,
                                item_price = price p, item_quantity = quantity it,
                                item_variant = variant it, item_subtotal = itemSubtotal\<rparr>]))))"

text \<open>
  \<open>Product.findByIdAndUpdate(id, {$inc: {stock: -q, salesCount: q}})\<close>: the
  update carries no filter on the stock; an id that matches no product changes
  nothing.
\<close>

definition inc_stock :: "(object_id \<rightharpoonup> product_doc) \<Rightarrow> object_id \<Rightarrow> int \<Rightarrow> (object_id \<rightharpoonup> product_doc)" where
  "inc_stock ps pid q =
     (case ps pid of
        None \<Rightarrow> ps
      | Some p \<Rightarrow> ps(pid \<mapsto> p\<lparr>stock := stock p - q, salesCount := salesCount p + q\<rparr>))"

text \<open>
  The second loop over the items (lines 99-106). It returns the products as
  written so far and whether it ran to its end; a \<open>productId\<close> that does
  not cast makes the update throw and ends the loop there.
\<close>

fun update_stock ::
  "caster \<Rightarrow> (object_id \<rightharpoonup> product_doc) \<Rightarrow> order_request_item list
     \<Rightarrow> bool \<times> (object_id \<rightharpoonup> product_doc)" where
  "update_stock cast ps [] = (True, ps)"
| "update_stock cast ps (it # its) =
     (case cast (productId it) of
        None \<Rightarrow> (False, ps)
      | Some pid \<Rightarrow> update_stock cast (inc_stock ps pid (quantity it)) its)"

text \<open>
  \<open>Order.create(doc)\<close> builds the document and saves it. Saving validates
  the document against the schema first and runs the schema's
  \<open>pre('save')\<close> hook only after the validation has passed. The schema
  marks as required the order number, the three customer fields, five
  address fields and each item's title (a required string must be present
  and not empty; required numbers and the payment method's enumeration are
  met by the types here). The hook gives a document without an order number
  the generated one. An absent string field is written as the empty string:
  the validation and the hook's test treat the two alike.
\<close>

datatype validation_error = ValidationError "string list"

definition required_paths_missing :: "order_doc \<Rightarrow> string list" where
  "required_paths_missing doc =
     map fst (filter (\<lambda>(path, v). v = [])
       [(''orderNumber'', orderNumber doc),
        (''customer.name'', name (order_customer doc)),
        (''customer.email'', email (order_customer doc)),
        (''customer.phone'', phone (order_customer doc)),
        (''shippingAddress.fullName'', fullName (order_shippingAddress doc)),
        (''shippingAddress.phone'', addr_phone (order_shippingAddress doc)),
        (''shippingAddress.region'', region (order_shippingAddress doc)),
        (''shippingAddress.city'', city (order_shippingAddress doc)),
        (''shippingAddress.address'', address (order_shippingAddress doc))])
     @ (if list_ex (\<lambda>i. item_title i = []) (order_items doc) then [''items.title''] else [])"

definition Order_create :: "string \<Rightarrow> order_doc \<Rightarrow> validation_error + order_doc" where
  "Order_create generated doc =
     (let missing = required_paths_missing doc in
      if missing \<noteq> [] then Inl (ValidationError missing)
      else Inr (doc\<lparr>orderNumber := (if orderNumber doc = [] then generated else orderNumber doc)\<rparr>))"

text \<open>
  \<open>router.post('/')\<close>, lines 17-96: the checks, the pricing and the
  document that the handler hands to \<open>Order.create\<close>. The handler sets no
  order number. The order schema types \<open>shippingCost\<close> and \<open>total\<close> as
  numbers, so on a shipping cost that is not a number \<open>Order.create\<close>
  throws and the handler's \<open>catch\<close> answers 500.
\<close>

definition new_order :: "caster \<Rightarrow> request_env \<Rightarrow> db \<Rightarrow> create_order_body \<Rightarrow> order_response + order_doc" where
  "new_order cast env d body =
     (case (body_customer body, body_shippingAddress body, body_items body, body_paymentMethod body) of
        (Some cust, Some addr, Some (i # rest), Some pm) \<Rightarrow>
          (let items = i # rest in
           case price_items cast (products d) items 0 [] of
             Inl err \<Rightarrow> Inl err
           | Inr (sub, orderItems) \<Rightarrow>
               (case calculateShipping (region addr) (foldl (\<lambda>s it. s + quantity it) 0 items) of
                  JNumber ship \<Rightarrow>
                    (let disc = 0;
                         tot = sub + ship - disc
                     in Inr \<lparr>order_id = new_id env, orderNumber = [],
                             order_user = userId env, order_customer = cust,
                             order_shippingAddress = addr, order_items = orderItems,
                             subtotal = sub, shippingCost = ship, discount = disc,
                             discountCode = body_discountCode body, total = tot,
                             paymentMethod = pm,
                             paymentStatus = (if pm = Cod then ''unpaid'' else ''pending''),
                             paymentDetails = None, status = ''pending'',
                             timeline = [\<lparr>tl_status = ''pending'',
                                           tl_message = ''Order placed successfully'',
                                           tl_timestamp = now env, tl_updatedBy = None\<rparr>],
                             courier = None,
                             deliveredAt = None, returnRequest = None\<rparr>)
                | _ \<Rightarrow> Inl FailedToCreateOrder))
      | _ \<Rightarrow> Inl MissingRequiredFields)"

text \<open>
  The whole handler: an early answer leaves the store as it was; a throw of
  \<open>Order.create\<close> is caught and answered with 500; after a stored order
  the stock loop runs, and the two notifications that follow write nothing.
\<close>

definition createOrder :: "caster \<Rightarrow> request_env \<Rightarrow> db \<Rightarrow> create_order_body \<Rightarrow> order_response \<times> db" where
  "createOrder cast env d body =
     (case new_order cast env d body of
        Inl response \<Rightarrow> (response, d)
      | Inr doc \<Rightarrow>
          (case Order_create (new_orderNumber env) doc of
             Inl err \<Rightarrow> (FailedToCreateOrder, d)
           | Inr order \<Rightarrow>
               (let items = (case body_items body of None \<Rightarrow> [] | Some its \<Rightarrow> its);
                    (finished, ps) = update_stock cast (products d) items;
                    d' = d\<lparr>orders := orders d @ [order], products := ps\<rparr>
                in (if finished then OrderPlaced order else FailedToCreateOrder, d'))))"


datatype order_op_response =
    InvalidStatus
  | OrderNotFound
  | OnlyDeliveredCanBeReturned
  | StatusUpdated order_doc
  | PaymentVerified order_doc
  | ReturnRequested


text \<open>A string from the request body is truthy when it is present and not empty.\<close>

fun truthy_str :: "string option \<Rightarrow> bool" where
  "truthy_str None = False"
| "truthy_str (Some s) = (s \<noteq> [])"


text \<open>\<open>router.patch('/:orderNumber/verify-payment')\<close>, likewise behind \<open>adminOnly\<close>.\<close>

record payment_body =
  pb_transactionId :: string
  pb_senderNumber :: string
  pb_amount :: int

definition verifyPayment :: "int \<Rightarrow> object_id \<Rightarrow> db \<Rightarrow> string \<Rightarrow> payment_body \<Rightarrow> order_op_response \<times> db" where
  "verifyPayment t uid d num body =
     (case findIndex (\<lambda>r. orderNumber r = num) (orders d) of
        None \<Rightarrow> (OrderNotFound, d)
      | Some i \<Rightarrow>
          (let order = orders d ! i;
               order1 = order\<lparr>paymentDetails := Some
                          \<lparr>transactionId = pb_transactionId body,
                           senderNumber = pb_senderNumber body,
                           amount = pb_amount body,
                           verifiedBy = uid, verifiedAt = t\<rparr>\<rparr>;
               order2 = order1\<lparr>paymentStatus := ''paid''\<rparr>
           in (PaymentVerified order2, d\<lparr>orders := (orders d)[i := order2]\<rparr>)))"




text \<open>Vocabulary of the statements about the item loop.\<close>

definition bad_item :: "caster \<Rightarrow> (object_id \<rightharpoonup> product_doc) \<Rightarrow> order_request_item \<Rightarrow> bool" where
  "bad_item cast ps it =
     (case cast (productId it) of
        None \<Rightarrow> True
      | Some pid \<Rightarrow> (case ps pid of None \<Rightarrow> True | Some p \<Rightarrow> stock p < quantity it))"

definition item_error :: "caster \<Rightarrow> (object_id \<rightharpoonup> product_doc) \<Rightarrow> order_request_item \<Rightarrow> order_response" where
  "item_error cast ps it =
     (case cast (productId it) of
        None \<Rightarrow> FailedToCreateOrder
      | Some pid \<Rightarrow>
          (case ps pid of
             None \<Rightarrow> ProductNotFound (productId it)
           | Some p \<Rightarrow> InsufficientStock (title p)))"

definition live_price :: "caster \<Rightarrow> (object_id \<rightharpoonup> product_doc) \<Rightarrow> string \<Rightarrow> int" where
  "live_price cast ps s =
     (case cast s of None \<Rightarrow> 0 | Some pid \<Rightarrow> (case ps pid of None \<Rightarrow> 0 | Some p \<Rightarrow> price p))"

definition required_fields_present :: "create_order_body \<Rightarrow> bool" where
  "required_fields_present body =
     (body_customer body \<noteq> None \<and> body_shippingAddress body \<noteq> None
      \<and> body_items body \<noteq> None \<and> body_items body \<noteq> Some [] \<and> body_paymentMethod body \<noteq> None)"

fun placed :: "order_response \<Rightarrow> bool" where
  "placed (OrderPlaced ord) = True"
| "placed other = False"

text \<open>The pricing fields of an order document.\<close>

definition pricing :: "order_doc \<Rightarrow> int \<times> int \<times> int \<times> int" where
  "pricing x = (subtotal x, shippingCost x, discount x, total x)"

text \<open>
  Concrete data for the examples. \<open>hex24\<close> is a caster: it takes the
  strings of 24 lower-case hexadecimal digits for the ids they spell.
\<close>

definition hex24 :: caster where
  "hex24 s = (if length s = 24 \<and> list_all (\<lambda>c. c \<in> set ''0123456789abcdef'') s then Some s else None)"

definition ex_pid :: object_id where
  "ex_pid = ''64b7f0000000000000000001''"

definition ex_product :: product_doc where
  "ex_product = \<lparr>title = ''Shoe'', slug = ''shoe'', image_url = None, price = 100, stock = 5,
                  salesCount = 0, rating = 0, reviewCount = 0\<rparr>"

definition ex_db :: db where
  "ex_db = \<lparr>products = [ex_pid \<mapsto> ex_product], orders = [], reviews = []\<rparr>"

definition ex_env :: request_env where
  "ex_env = \<lparr>now = 0, new_id = ''64b7f00000000000000000a1'', new_orderNumber = ''TUA-00000000-AAAAA'',
             userId = Some ''u1''\<rparr>"

definition ex_customer :: customer_info where
  "ex_customer = \<lparr>name = ''A'', email = ''a@b.c'', phone = ''01712345678''\<rparr>"

definition ex_address :: shipping_address where
  "ex_address = \<lparr>fullName = ''A'', addr_phone = ''01712345678'', region = ''Dhaka'', city = ''Dhaka'',
                  address = ''x''\<rparr>"

definition ex_body :: "order_request_item list \<Rightarrow> create_order_body" where
  "ex_body its =
     \<lparr>body_customer = Some ex_customer, body_shippingAddress = Some ex_address,
      body_items = Some its, body_paymentMethod = Some Bkash, body_discountCode = None\<rparr>"

definition ex_item :: "int \<Rightarrow> order_request_item" where
  "ex_item q = \<lparr>productId = ex_pid, quantity = q, variant = None\<rparr>"

text \<open>
  The document the handler builds for two units of the example product, and
  the same order as it would be stored under a number.
\<close>

definition ex_doc :: order_doc where
  "ex_doc =
     \<lparr>order_id = ''64b7f00000000000000000a1'', orderNumber = [], order_user = Some ''u1'',
      order_customer = ex_customer, order_shippingAddress = ex_address,
      order_items = [\<lparr>item_product = ex_pid, item_title = ''Shoe'', item_slug = ''shoe'',
                      item_image = None, item_price = 100, item_quantity = 2,
                      item_variant = None, item_subtotal = 200\<rparr>],
      subtotal = 200, shippingCost = 60, discount = 0, discountCode = None, total = 260,
      paymentMethod = Bkash, paymentStatus = ''pending'', paymentDetails = None,
      status = ''pending'',
      timeline = [\<lparr>tl_status = ''pending'', tl_message = ''Order placed successfully'',
                    tl_timestamp = 0, tl_updatedBy = None\<rparr>],
      courier = None, deliveredAt = None, returnRequest = None\<rparr>"

definition ex_order :: order_doc where
  "ex_order = ex_doc\<lparr>orderNumber := ''TUA-00000000-AAAAA''\<rparr>"

definition ex_db1 :: db where
  "ex_db1 = ex_db\<lparr>orders := [ex_order]\<rparr>"

definition ex_payment :: payment_body where
  "ex_payment = \<lparr>pb_transactionId = ''TX1'', pb_senderNumber = ''01812345678'', pb_amount = 1\<rparr>"


section \<open>Properties of the shipping cost\<close>

text \<open>
  C7. The shipping cost is meant to be the region's rate, or 100 for a region
  that is not in the table, plus 20 for each item beyond the third. The lookup
  \<open>shippingRates[region] || 100\<close> does that for every region except the
  names of the members an object literal inherits: for the region
  \<open>constructor\<close> the lookup yields the inherited function, which is truthy,
  and the sum is a string instead of the fallback rate 100.
\<close>

theorem calculateShipping_inherited_key:
  "calculateShipping ''constructor'' 1 = JConcat \<and> spec_shipping ''constructor'' 1 = 100"
  by (simp add: calculateShipping_def js_get_def js_or_def shippingRates_def
      object_prototype_members_def spec_shipping_def spec_base_rate_def)

section \<open>Properties of the create-order workflow\<close>

lemma price_items_Inr:
  "price_items cast ps its sub acc = Inr (s, oi) \<Longrightarrow>
   s = sub + (\<Sum>it\<leftarrow>its. live_price cast ps (productId it) * quantity it)
   \<and> (\<forall>it \<in> set its. \<not> bad_item cast ps it)"
proof (induction its arbitrary: sub acc)
  case Nil
  then show ?case by simp
next
  case (Cons it its)
  from Cons.prems obtain pid p where c: "cast (productId it) = Some pid"
    and p: "ps pid = Some p" and ok: "\<not> stock p < quantity it"
    by (auto split: option.splits if_splits)
  let ?acc = "acc @ [\<lparr>item_product = pid, item_title = title p,
                     item_slug = slug p, item_image = image_url p, item_price = price p,
                     item_quantity = quantity it, item_variant = variant it,
                     item_subtotal = price p * quantity it\<rparr>]"
  from Cons.prems c p ok
  have "price_items cast ps its (sub + price p * quantity it) ?acc = Inr (s, oi)"
    by (simp add: Let_def)
  from Cons.IH[OF this] c p ok show ?case
    by (simp add: live_price_def bad_item_def)
qed

lemma price_items_first_bad:
  "find (bad_item cast ps) its = Some it \<Longrightarrow>
   price_items cast ps its sub acc = Inl (item_error cast ps it)"
  by (induction its arbitrary: sub acc)
     (auto simp: item_error_def bad_item_def Let_def split: option.splits if_splits)

lemma find_first_exists:
  "\<exists>x \<in> set xs. P x \<Longrightarrow> \<exists>x. find P xs = Some x \<and> x \<in> set xs \<and> P x"
  by (induction xs) auto

lemma price_items_Inl_error:
  "price_items cast ps its sub acc = Inl e \<Longrightarrow>
   \<exists>it \<in> set its. bad_item cast ps it \<and> e = item_error cast ps it"
proof (induction its arbitrary: sub acc)
  case Nil
  then show ?case by simp
next
  case (Cons it its)
  show ?case
  proof (cases "bad_item cast ps it")
    case True
    with Cons.prems show ?thesis
      by (auto simp: bad_item_def item_error_def split: option.splits if_splits)
  next
    case False
    then obtain pid p where p: "cast (productId it) = Some pid" "ps pid = Some p"
      "\<not> stock p < quantity it"
      by (auto simp: bad_item_def split: option.splits)
    with Cons.prems have "\<exists>s a. price_items cast ps its s a = Inl e"
      by (auto simp: Let_def)
    with Cons.IH show ?thesis by auto
  qed
qed

lemma item_error_not_placed:
  "item_error cast ps it \<noteq> OrderPlaced ord" "OrderPlaced ord \<noteq> item_error cast ps it"
  by (simp_all add: item_error_def split: option.splits)

lemma new_order_first_bad:
  assumes "body_items body = Some its" and "find (bad_item cast (products d)) its = Some it"
  shows "new_order cast env d body =
           Inl (if required_fields_present body then item_error cast (products d) it
                else MissingRequiredFields)"
proof -
  from assms(2) obtain i rest where its: "its = i # rest" by (cases its) auto
  show ?thesis
    using assms(1) price_items_first_bad[OF assms(2), of 0 "[]"]
    by (auto simp: new_order_def required_fields_present_def its Let_def
        simp del: price_items.simps split: option.splits)
qed

lemma new_order_built:
  assumes "new_order cast env d body = Inr doc"
  shows "orderNumber doc = []"
    and "discount doc = 0"
    and "total doc = subtotal doc + shippingCost doc - discount doc"
    and "\<exists>its. body_items body = Some its
           \<and> subtotal doc = (\<Sum>it\<leftarrow>its. live_price cast (products d) (productId it) * quantity it)"
proof -
  from assms obtain cust addr i rest pm where b: "body_customer body = Some cust"
    "body_shippingAddress body = Some addr" "body_items body = Some (i # rest)"
    "body_paymentMethod body = Some pm"
    by (auto simp: new_order_def split: option.splits list.splits)
  from assms b obtain sub oi where r: "price_items cast (products d) (i # rest) 0 [] = Inr (sub, oi)"
    by (cases "price_items cast (products d) (i # rest) 0 []")
       (auto simp: new_order_def simp del: price_items.simps)
  from price_items_Inr[OF r]
  have sub: "sub = (\<Sum>it\<leftarrow>i # rest. live_price cast (products d) (productId it) * quantity it)"
    by simp
  from assms b r show "orderNumber doc = []" and "discount doc = 0"
    and "total doc = subtotal doc + shippingCost doc - discount doc"
    by (auto simp: new_order_def Let_def simp del: price_items.simps split: js_value.splits)
  from assms b r have "subtotal doc = sub"
    by (auto simp: new_order_def Let_def simp del: price_items.simps split: js_value.splits)
  with sub b(3) show "\<exists>its. body_items body = Some its
           \<and> subtotal doc = (\<Sum>it\<leftarrow>its. live_price cast (products d) (productId it) * quantity it)"
    by simp
qed

lemma Order_create_without_number:
  "orderNumber doc = [] \<Longrightarrow> \<exists>paths. Order_create generated doc = Inl (ValidationError paths)"
  by (simp add: Order_create_def required_paths_missing_def Let_def)


text \<open>
  The handler hands \<open>Order.create\<close> a document without an order number,
  the validation refuses it, and the handler answers 500: no request stores
  an order, and none reaches the stock loop.
\<close>

lemma createOrder_stores_nothing:
  "createOrder cast env d body =
     (case new_order cast env d body of Inl response \<Rightarrow> response | Inr doc \<Rightarrow> FailedToCreateOrder, d)"
proof (cases "new_order cast env d body")
  case (Inl response)
  then show ?thesis by (simp add: createOrder_def)
next
  case (Inr doc)
  from new_order_built(1)[OF Inr] Order_create_without_number[of doc "new_orderNumber env"]
  obtain paths where "Order_create (new_orderNumber env) doc = Inl (ValidationError paths)"
    by blast
  with Inr show ?thesis by (simp add: createOrder_def)
qed

lemma createOrder_never_places: "\<not> placed (fst (createOrder cast env d body))"
proof (cases "new_order cast env d body")
  case (Inl response)
  have "response \<noteq> OrderPlaced ord" for ord
  proof
    assume e: "response = OrderPlaced ord"
    from Inl obtain cust addr i rest pm where b: "body_customer body = Some cust"
      "body_shippingAddress body = Some addr" "body_items body = Some (i # rest)"
      "body_paymentMethod body = Some pm"
      unfolding e by (auto simp: new_order_def split: option.splits list.splits)
    show False
    proof (cases "price_items cast (products d) (i # rest) 0 []")
      case (Inl err)
      from price_items_Inl_error[OF Inl] obtain it where "err = item_error cast (products d) it"
        by blast
      with Inl \<open>new_order cast env d body = Inl response\<close> b e show False
        by (auto simp: new_order_def item_error_not_placed simp del: price_items.simps)
    next
      case (Inr r)
      with \<open>new_order cast env d body = Inl response\<close> b e show False
        by (auto simp: new_order_def Let_def simp del: price_items.simps
            split: js_value.splits prod.splits)
    qed
  qed
  then have "\<not> placed response" by (cases response) auto
  with Inl show ?thesis by (simp add: createOrder_stores_nothing)
next
  case (Inr doc)
  then show ?thesis by (simp add: createOrder_stores_nothing)
qed

lemma findIndex_Some:
  "findIndex P xs = Some i \<Longrightarrow> i < length xs \<and> P (xs ! i) \<and> (\<forall>j<i. \<not> P (xs ! j))"
proof (induction xs arbitrary: i)
  case Nil
  then show ?case by simp
next
  case (Cons x xs)
  show ?case
  proof (cases "P x")
    case True
    with Cons.prems show ?thesis by simp
  next
    case False
    with Cons.prems obtain k where k: "findIndex P xs = Some k" "i = Suc k"
      by (auto split: option.splits)
    from Cons.IH[OF k(1)] False k(2) show ?thesis
      by (auto simp: less_Suc_eq_0_disj)
  qed
qed

lemma findIndex_None: "findIndex P xs = None \<longleftrightarrow> (\<forall>x \<in> set xs. \<not> P x)"
  by (induction xs) (auto split: option.splits)

lemma map_update_same:
  "i < length xs \<Longrightarrow> f y = f (xs ! i) \<Longrightarrow> map f (xs[i := y]) = map f xs"
  by (simp add: map_update list_update_same_conv)






text \<open>
  The write of the stock loop, taken on its own, tests nothing: six units
  written against a stock of five leave it at -1.
\<close>

lemma stock_loop_has_no_condition:
  "update_stock hex24 (products ex_db) [ex_item 6]
     = (True, [ex_pid \<mapsto> ex_product\<lparr>stock := - 1, salesCount := 6\<rparr>])"
  by (simp add: hex24_def ex_db_def ex_item_def ex_pid_def ex_product_def inc_stock_def)



text \<open>
  C2, as stated, fails. A request with every required field whose line item
  names no product because its \<open>productId\<close> is not an \<open>ObjectId\<close> is
  answered with the generic failure of the handler's \<open>catch\<close>, not with
  product-not-found; and a request that names a missing product and lacks
  the customer is answered with the missing-fields error.
\<close>

theorem createOrder_generic_or_missing_fields:
  "bad_item hex24 (products ex_db) \<lparr>productId = ''not-an-id'', quantity = 1, variant = None\<rparr>
   \<and> required_fields_present (ex_body [\<lparr>productId = ''not-an-id'', quantity = 1, variant = None\<rparr>])
   \<and> createOrder hex24 ex_env ex_db
        (ex_body [\<lparr>productId = ''not-an-id'', quantity = 1, variant = None\<rparr>])
      = (FailedToCreateOrder, ex_db)
   \<and> bad_item hex24 (products ex_db)
        \<lparr>productId = ''64b7f0000000000000000002'', quantity = 1, variant = None\<rparr>
   \<and> createOrder hex24 ex_env ex_db
        ((ex_body [\<lparr>productId = ''64b7f0000000000000000002'', quantity = 1, variant = None\<rparr>])
           \<lparr>body_customer := None\<rparr>)
      = (MissingRequiredFields, ex_db)"
  by (simp add: createOrder_stores_nothing new_order_def ex_db_def ex_body_def bad_item_def
      hex24_def ex_pid_def required_fields_present_def)

text \<open>
  C2, amended. For every create-order request in which some line item names
  a missing product or asks for more than that product's current stock, the
  request is rejected and the store is left as it was (no order record, no
  change of any stock or sales count). When the required fields are all
  present the error is that of such a line item: product-not-found naming
  the requested id, insufficient-stock naming the product's title, or, for
  a \<open>productId\<close> that is not an \<open>ObjectId\<close>, the generic failure; so when
  every \<open>productId\<close> of the request is an \<open>ObjectId\<close> it is one of the
  first two. When a required field is absent the error is the
  missing-fields error.
\<close>

theorem createOrder_rejects_bad_item:
  assumes "body_items body = Some its" and "\<exists>it \<in> set its. bad_item cast (products d) it"
  shows "snd (createOrder cast env d body) = d
         \<and> \<not> placed (fst (createOrder cast env d body))
         \<and> (\<not> required_fields_present body \<longrightarrow>
              fst (createOrder cast env d body) = MissingRequiredFields)
         \<and> (required_fields_present body \<longrightarrow>
              (\<exists>it \<in> set its. bad_item cast (products d) it
                 \<and> fst (createOrder cast env d body) = item_error cast (products d) it))
         \<and> (required_fields_present body \<and> (\<forall>it \<in> set its. cast (productId it) \<noteq> None) \<longrightarrow>
              (\<exists>it \<in> set its.
                 fst (createOrder cast env d body) = ProductNotFound (productId it)
                 \<or> (\<exists>pid p. cast (productId it) = Some pid \<and> products d pid = Some p
                        \<and> stock p < quantity it
                        \<and> fst (createOrder cast env d body) = InsufficientStock (title p))))"
proof -
  from find_first_exists[OF assms(2)] obtain it
    where it: "find (bad_item cast (products d)) its = Some it" "it \<in> set its"
      "bad_item cast (products d) it"
    by blast
  note n = new_order_first_bad[OF assms(1) it(1), of env]
  have c: "createOrder cast env d body =
             (if required_fields_present body then item_error cast (products d) it
              else MissingRequiredFields, d)"
    by (simp add: createOrder_stores_nothing n)
  have 1: "snd (createOrder cast env d body) = d" by (simp add: c)
  have 2: "\<not> placed (fst (createOrder cast env d body))" by (rule createOrder_never_places)
  have 3: "\<not> required_fields_present body \<longrightarrow>
              fst (createOrder cast env d body) = MissingRequiredFields"
    by (simp add: c)
  have 4: "required_fields_present body \<longrightarrow>
              (\<exists>it \<in> set its. bad_item cast (products d) it
                 \<and> fst (createOrder cast env d body) = item_error cast (products d) it)"
    using it by (auto simp: c)
  have 5: "required_fields_present body \<and> (\<forall>it \<in> set its. cast (productId it) \<noteq> None) \<longrightarrow>
              (\<exists>it \<in> set its.
                 fst (createOrder cast env d body) = ProductNotFound (productId it)
                 \<or> (\<exists>pid p. cast (productId it) = Some pid \<and> products d pid = Some p
                        \<and> stock p < quantity it
                        \<and> fst (createOrder cast env d body) = InsufficientStock (title p)))"
  proof
    assume h: "required_fields_present body \<and> (\<forall>it \<in> set its. cast (productId it) \<noteq> None)"
    with it(2) obtain pid where pid: "cast (productId it) = Some pid" by auto
    show "\<exists>it \<in> set its.
                 fst (createOrder cast env d body) = ProductNotFound (productId it)
                 \<or> (\<exists>pid p. cast (productId it) = Some pid \<and> products d pid = Some p
                        \<and> stock p < quantity it
                        \<and> fst (createOrder cast env d body) = InsufficientStock (title p))"
    proof (cases "products d pid")
      case None
      with pid h have "fst (createOrder cast env d body) = ProductNotFound (productId it)"
        by (simp add: c item_error_def)
      with it(2) show ?thesis by (intro bexI[of _ it] disjI1)
    next
      case (Some p)
      with pid it(3) have "stock p < quantity it" by (simp add: bad_item_def)
      moreover from Some pid h have "fst (createOrder cast env d body) = InsufficientStock (title p)"
        by (simp add: c item_error_def)
      ultimately have "\<exists>pid p. cast (productId it) = Some pid \<and> products d pid = Some p
                        \<and> stock p < quantity it
                        \<and> fst (createOrder cast env d body) = InsufficientStock (title p)"
        using pid Some by (intro exI[of _ pid] exI[of _ p] conjI)
      with it(2) show ?thesis by (intro bexI[of _ it] disjI2)
    qed
  qed
  from 1 2 3 4 5 show ?thesis by (intro conjI)
qed

theorem createOrder_rejects_bad_item_witness:
  "createOrder hex24 ex_env ex_db (ex_body [ex_item 2, ex_item 9]) = (InsufficientStock ''Shoe'', ex_db)"
proof -
  let ?b = "ex_body [ex_item 2, ex_item 9]"
  have i: "body_items ?b = Some [ex_item 2, ex_item 9]" by (simp add: ex_body_def)
  have b: "\<exists>it \<in> set [ex_item 2, ex_item 9]. bad_item hex24 (products ex_db) it"
    by (simp add: bad_item_def hex24_def ex_item_def ex_pid_def ex_db_def ex_product_def)
  have r: "required_fields_present ?b" by (simp add: required_fields_present_def ex_body_def)
  note t = createOrder_rejects_bad_item[OF i b, of ex_env]
  from t have s: "snd (createOrder hex24 ex_env ex_db ?b) = ex_db" by (elim conjE)
  from t have "required_fields_present ?b \<longrightarrow>
              (\<exists>it \<in> set [ex_item 2, ex_item 9]. bad_item hex24 (products ex_db) it
                 \<and> fst (createOrder hex24 ex_env ex_db ?b) = item_error hex24 (products ex_db) it)"
    by (elim conjE)
  with r obtain it where it: "it \<in> set [ex_item 2, ex_item 9]" "bad_item hex24 (products ex_db) it"
      "fst (createOrder hex24 ex_env ex_db ?b) = item_error hex24 (products ex_db) it"
    by blast
  have g: "\<not> bad_item hex24 (products ex_db) (ex_item 2)"
    by (simp add: bad_item_def hex24_def ex_item_def ex_pid_def ex_db_def ex_product_def)
  from it(1,2) g have "it = ex_item 9" by auto
  with it(3) have "fst (createOrder hex24 ex_env ex_db ?b) = InsufficientStock ''Shoe''"
    by (simp add: item_error_def hex24_def ex_item_def ex_pid_def ex_db_def ex_product_def)
  with s show ?thesis by (simp add: prod_eq_iff)
qed



lemma ex_db1_order:
  "\<exists>ord. orders ex_db1 = [ord] \<and> orderNumber ord = ''TUA-00000000-AAAAA''
     \<and> pricing ord = (200, 60, 0, 260) \<and> paymentStatus ord = ''pending''"
  by (simp add: ex_db1_def ex_order_def ex_doc_def pricing_def)


text \<open>
  C9. For every existing order and every submitted transaction id, sender
  number and amount, payment verification answers with the order found, its
  payment status set to paid and the submitted details recorded, every other
  field as before. Nothing is assumed about the amount or about the payment
  status the order had: no comparison with the total and no required prior
  status.
\<close>

theorem verifyPayment_unconditional:
  assumes "x \<in> set (orders d)" and "orderNumber x = num"
  shows "\<exists>i ord'. findIndex (\<lambda>r. orderNumber r = num) (orders d) = Some i
           \<and> verifyPayment t uid d num body = (PaymentVerified ord', d\<lparr>orders := (orders d)[i := ord']\<rparr>)
           \<and> paymentStatus ord' = ''paid''
           \<and> paymentDetails ord' = Some
                \<lparr>transactionId = pb_transactionId body, senderNumber = pb_senderNumber body,
                 amount = pb_amount body, verifiedBy = uid, verifiedAt = t\<rparr>
           \<and> ord' = (orders d ! i)\<lparr>paymentDetails := paymentDetails ord', paymentStatus := ''paid''\<rparr>"
proof -
  from assms have "findIndex (\<lambda>r. orderNumber r = num) (orders d) \<noteq> None"
    by (auto simp: findIndex_None)
  then obtain i where "findIndex (\<lambda>r. orderNumber r = num) (orders d) = Some i" by auto
  then show ?thesis by (simp add: verifyPayment_def Let_def)
qed

theorem verifyPayment_unconditional_witness:
  "\<exists>ord ord'. orders ex_db1 = [ord] \<and> total ord = 260 \<and> paymentStatus ord = ''pending''
     \<and> fst (verifyPayment 7 ''admin'' ex_db1 ''TUA-00000000-AAAAA'' ex_payment) = PaymentVerified ord'
     \<and> paymentStatus ord' = ''paid'' \<and> map_option amount (paymentDetails ord') = Some 1"
proof -
  from ex_db1_order obtain ord
    where o: "orders ex_db1 = [ord]" "orderNumber ord = ''TUA-00000000-AAAAA''"
      "pricing ord = (200, 60, 0, 260)" "paymentStatus ord = ''pending''"
    by blast
  have m: "ord \<in> set (orders ex_db1)" using o(1) by simp
  from verifyPayment_unconditional[OF m o(2), of 7 "''admin''" ex_payment]
  obtain i ord' where r:
    "verifyPayment 7 ''admin'' ex_db1 ''TUA-00000000-AAAAA'' ex_payment
       = (PaymentVerified ord', ex_db1\<lparr>orders := (orders ex_db1)[i := ord']\<rparr>)"
    "paymentStatus ord' = ''paid''"
    "paymentDetails ord' = Some
                \<lparr>transactionId = pb_transactionId ex_payment, senderNumber = pb_senderNumber ex_payment,
                 amount = pb_amount ex_payment, verifiedBy = ''admin'', verifiedAt = 7\<rparr>"
    by blast
  from o(3) have t: "total ord = 260" by (simp add: pricing_def)
  have a: "map_option amount (paymentDetails ord') = Some 1"
    by (simp add: r(3) ex_payment_def)
  have f: "fst (verifyPayment 7 ''admin'' ex_db1 ''TUA-00000000-AAAAA'' ex_payment) = PaymentVerified ord'"
    by (simp only: r(1) fst_conv)
  from o(1) t o(4) f r(2) a show ?thesis by (intro exI[of _ ord] exI[of _ ord'] conjI)
qed


section \<open>One-time codes (src/utils/helpers.js, saveOTP and verifyOTP)\<close>

record otp_doc =
  otp_phone :: string
  otp :: string
  otp_purpose :: string
  expiresAt :: int
  verified :: bool
  attempts :: int

datatype otp_error = InvalidOrExpired | TooManyAttempts

datatype verify_result = Verified | Rejected otp_error

text \<open>
  \<open>saveOTP\<close>: \<open>code\<close> is what \<open>generateOTP()\<close> returned and \<open>t\<close> what
  \<open>Date.now()\<close> returned. The schema's defaults give the new document
  \<open>verified = false\<close> and \<open>attempts = 0\<close>. The collection's expiry
  index removes documents some time after \<open>expiresAt\<close>; the lookup of
  \<open>verifyOTP\<close> already skips them from that moment on, so the removal is
  not modelled.
\<close>

definition saveOTP :: "string \<Rightarrow> int \<Rightarrow> otp_doc list \<Rightarrow> string \<Rightarrow> string \<Rightarrow> string \<times> otp_doc list" where
  "saveOTP code t coll ph pu =
     (let expires = t + 5 * 60 * 1000;
          coll1 = filter (\<lambda>x. \<not> (otp_phone x = ph \<and> otp_purpose x = pu)) coll;
          coll2 = coll1 @ [\<lparr>otp_phone = ph, otp = code, otp_purpose = pu, expiresAt = expires,
                            verified = False, attempts = 0\<rparr>]
      in (code, coll2))"

definition verifyOTP :: "int \<Rightarrow> otp_doc list \<Rightarrow> string \<Rightarrow> string \<Rightarrow> string \<Rightarrow> verify_result \<times> otp_doc list" where
  "verifyOTP t coll ph code pu =
     (case findIndex (\<lambda>x. otp_phone x = ph \<and> otp x = code \<and> otp_purpose x = pu
                          \<and> verified x = False \<and> expiresAt x > t) coll of
        None \<Rightarrow> (Rejected InvalidOrExpired, coll)
      | Some i \<Rightarrow>
          (let otpDoc = coll ! i;
               otpDoc1 = otpDoc\<lparr>attempts := attempts otpDoc + 1\<rparr>
           in if attempts otpDoc1 > 3 then (Rejected TooManyAttempts, deleteAt i coll)
              else (let otpDoc2 = otpDoc1\<lparr>verified := True\<rparr>
                    in (Verified, coll[i := otpDoc2]))))"

text \<open>A run of verify calls on one phone and purpose: the codes tried, with the time of each try.\<close>

fun verify_each :: "otp_doc list \<Rightarrow> string \<Rightarrow> string \<Rightarrow> (int \<times> string) list \<Rightarrow> verify_result list \<times> otp_doc list" where
  "verify_each coll ph pu [] = ([], coll)"
| "verify_each coll ph pu ((t, code) # rest) =
     (let (r, coll1) = verifyOTP t coll ph code pu;
          (rs, coll2) = verify_each coll1 ph pu rest
      in (r # rs, coll2))"

text \<open>Histories of the two operations.\<close>

datatype otp_op = Issue string int string string | Verify int string string string

fun otp_step :: "otp_doc list \<Rightarrow> otp_op \<Rightarrow> otp_doc list" where
  "otp_step coll (Issue code t ph pu) = snd (saveOTP code t coll ph pu)"
| "otp_step coll (Verify t ph code pu) = snd (verifyOTP t coll ph code pu)"

fun issues :: "string \<Rightarrow> string \<Rightarrow> string \<Rightarrow> otp_op \<Rightarrow> bool" where
  "issues ph code pu (Issue code' t ph' pu') = (ph' = ph \<and> code' = code \<and> pu' = pu)"
| "issues ph code pu (Verify t ph' code' pu') = False"

definition ex_otps :: "otp_doc list" where
  "ex_otps = snd (saveOTP ''123456'' 0 [] ''01712345678'' ''login'')"

lemma verifyOTP_wrong_code:
  "\<forall>x \<in> set coll. otp x \<noteq> code \<Longrightarrow> verifyOTP t coll ph code pu = (Rejected InvalidOrExpired, coll)"
proof -
  assume "\<forall>x \<in> set coll. otp x \<noteq> code"
  then have "findIndex (\<lambda>x. otp_phone x = ph \<and> otp x = code \<and> otp_purpose x = pu
                          \<and> verified x = False \<and> expiresAt x > t) coll = None"
    by (auto simp: findIndex_None)
  then show ?thesis by (simp add: verifyOTP_def)
qed

text \<open>
  C3. Four failed verify calls are meant to use up the record: the fourth
  deletes it with a too-many-attempts failure, and a fifth call fails even
  with the right code. The lookup of \<open>verifyOTP\<close> filters on the submitted
  code, so a call with a wrong code finds no record and returns before the
  attempts are counted. In the specification's scenario (phone 01712345678,
  purpose login, code 123456) four calls with 000000 all fail as invalid or
  expired, the record is still there with its attempts untouched, and the
  fifth call, with 123456, succeeds. The lemma before this says it for every
  collection: a call whose code no record carries changes nothing.
\<close>

theorem verifyOTP_wrong_codes_not_counted:
  "verify_each ex_otps ''01712345678'' ''login'' [(1000, ''000000''), (2000, ''000000''), (3000, ''000000''), (4000, ''000000''), (5000, ''123456'')]
  = ([Rejected InvalidOrExpired, Rejected InvalidOrExpired, Rejected InvalidOrExpired, Rejected InvalidOrExpired, Verified],
     [\<lparr>otp_phone = ''01712345678'', otp = ''123456'', otp_purpose = ''login'', expiresAt = 300000, verified = True, attempts = 1\<rparr>])"
  by (simp add: ex_otps_def saveOTP_def verifyOTP_def Let_def)

text \<open>Vocabulary of the invariants: the key a new issue replaces, and "no unconsumed record of this code".\<close>

definition key_of :: "otp_doc \<Rightarrow> string \<times> string" where
  "key_of x = (otp_phone x, otp_purpose x)"

definition no_live :: "string \<Rightarrow> string \<Rightarrow> string \<Rightarrow> otp_doc list \<Rightarrow> bool" where
  "no_live ph code pu coll =
     (\<forall>x \<in> set coll. otp_phone x = ph \<and> otp x = code \<and> otp_purpose x = pu \<longrightarrow> verified x)"

lemma set_deleteAt: "set (deleteAt i xs) \<subseteq> set xs"
  by (induction i xs rule: deleteAt.induct) auto

lemma map_deleteAt: "map f (deleteAt i xs) = deleteAt i (map f xs)"
  by (induction i xs rule: deleteAt.induct) auto

lemma distinct_deleteAt: "distinct xs \<Longrightarrow> distinct (deleteAt i xs)"
proof (induction i xs rule: deleteAt.induct)
  case (3 i x xs)
  from set_deleteAt[of i xs] "3.prems" have "x \<notin> set (deleteAt i xs)" by auto
  with 3 show ?case by simp
qed simp_all

lemma saveOTP_unique: "distinct (map key_of coll) \<Longrightarrow> distinct (map key_of (snd (saveOTP code t coll ph pu)))"
  by (auto simp: saveOTP_def Let_def key_of_def distinct_map_filter)

lemma verifyOTP_unique:
  assumes "distinct (map key_of coll)"
  shows "distinct (map key_of (snd (verifyOTP t coll ph code pu)))"
proof (cases "findIndex (\<lambda>x. otp_phone x = ph \<and> otp x = code \<and> otp_purpose x = pu
                          \<and> verified x = False \<and> expiresAt x > t) coll")
  case None
  with assms show ?thesis by (simp add: verifyOTP_def)
next
  case (Some i)
  from findIndex_Some[OF Some] have il: "i < length coll" by simp
  have del: "distinct (map key_of (deleteAt i coll))"
    using assms by (simp add: map_deleteAt distinct_deleteAt)
  have "map key_of (coll[i := (coll ! i)\<lparr>attempts := attempts (coll ! i) + 1, verified := True\<rparr>])
          = map key_of coll"
    using il by (intro map_update_same) (simp_all add: key_of_def)
  with assms del Some show ?thesis
    by (simp add: verifyOTP_def Let_def)
qed

lemma otp_step_unique: "distinct (map key_of coll) \<Longrightarrow> distinct (map key_of (otp_step coll op))"
  by (cases op) (simp_all add: saveOTP_unique verifyOTP_unique)

lemma history_unique: "distinct (map key_of coll) \<Longrightarrow> distinct (map key_of (foldl otp_step coll ops))"
  by (induction ops arbitrary: coll) (simp_all add: otp_step_unique)

lemma verifyOTP_no_live:
  assumes a: "no_live ph code pu coll"
  shows "no_live ph code pu (snd (verifyOTP t coll ph' code' pu'))"
proof (cases "findIndex (\<lambda>x. otp_phone x = ph' \<and> otp x = code' \<and> otp_purpose x = pu'
                          \<and> verified x = False \<and> expiresAt x > t) coll")
  case None
  with a show ?thesis by (simp add: verifyOTP_def)
next
  case (Some i)
  let ?d = "(coll ! i)\<lparr>attempts := attempts (coll ! i) + 1, verified := True\<rparr>"
  have 1: "no_live ph code pu (deleteAt i coll)"
    using a set_deleteAt[of i coll] unfolding no_live_def by blast
  have "set (coll[i := ?d]) \<subseteq> insert ?d (set coll)"
    by (rule set_update_subset_insert)
  moreover have "verified ?d" by simp
  ultimately have 2: "no_live ph code pu (coll[i := ?d])"
    using a unfolding no_live_def by blast
  from 1 2 Some show ?thesis
    by (simp add: verifyOTP_def Let_def)
qed

lemma saveOTP_no_live:
  "no_live ph code pu coll \<Longrightarrow> \<not> (ph' = ph \<and> code' = code \<and> pu' = pu) \<Longrightarrow>
   no_live ph code pu (snd (saveOTP code' t coll ph' pu'))"
  by (auto simp: saveOTP_def Let_def no_live_def)

lemma otp_step_no_live:
  "no_live ph code pu coll \<Longrightarrow> \<not> issues ph code pu op \<Longrightarrow> no_live ph code pu (otp_step coll op)"
  by (cases op) (simp_all add: saveOTP_no_live verifyOTP_no_live)

lemma later_no_live:
  "no_live ph code pu coll \<Longrightarrow> \<forall>op \<in> set ops. \<not> issues ph code pu op \<Longrightarrow>
   no_live ph code pu (foldl otp_step coll ops)"
  by (induction ops arbitrary: coll) (simp_all add: otp_step_no_live)

lemma verifyOTP_when_no_live:
  "no_live ph code pu coll \<Longrightarrow> verifyOTP t coll ph code pu = (Rejected InvalidOrExpired, coll)"
proof -
  assume a: "no_live ph code pu coll"
  have "findIndex (\<lambda>x. otp_phone x = ph \<and> otp x = code \<and> otp_purpose x = pu
                          \<and> verified x = False \<and> expiresAt x > t) coll = None"
    using a by (auto simp: findIndex_None no_live_def)
  then show ?thesis by (simp add: verifyOTP_def)
qed

lemma verified_no_live:
  assumes u: "distinct (map key_of coll)" and v: "verifyOTP t coll ph code pu = (Verified, coll')"
  shows "no_live ph code pu coll'"
proof -
  let ?P = "\<lambda>x. otp_phone x = ph \<and> otp x = code \<and> otp_purpose x = pu \<and> verified x = False \<and> expiresAt x > t"
  from v obtain i where i: "findIndex ?P coll = Some i"
    by (auto simp: verifyOTP_def split: option.splits)
  from findIndex_Some[OF i] have il: "i < length coll" and pi: "?P (coll ! i)" by auto
  from v i have c': "coll' = coll[i := (coll ! i)\<lparr>attempts := attempts (coll ! i) + 1, verified := True\<rparr>]"
    by (auto simp: verifyOTP_def Let_def split: if_splits)
  show ?thesis
    unfolding no_live_def
  proof (intro ballI impI)
    fix x assume x: "x \<in> set coll'" and m: "otp_phone x = ph \<and> otp x = code \<and> otp_purpose x = pu"
    from x obtain j where j: "j < length coll'" "x = coll' ! j" by (auto simp: in_set_conv_nth)
    show "verified x"
    proof (cases "j = i")
      case True
      with j c' il show ?thesis by simp
    next
      case False
      with j c' have xj: "x = coll ! j" "j < length coll" by auto
      with m pi have "key_of (coll ! j) = key_of (coll ! i)" by (simp add: key_of_def)
      with u il xj False have False
        by (auto simp: distinct_conv_nth)
      then show ?thesis ..
    qed
  qed
qed

text \<open>
  C4. In every collection that the two operations can build, once a verify
  call for a phone, code and purpose has succeeded, every later verify call
  with the same phone, code and purpose fails as invalid or expired and changes
  nothing, whatever verify calls and whatever issues of other codes come in
  between, and at whatever time: the record found was marked verified, and a
  new issue has left no second record for the phone and purpose.
\<close>

theorem otp_consumed_at_most_once:
  assumes "coll = foldl otp_step [] history"
    and "verifyOTP t coll ph code pu = (Verified, coll')"
    and "\<forall>op \<in> set later. \<not> issues ph code pu op"
  shows "verifyOTP t' (foldl otp_step coll' later) ph code pu
           = (Rejected InvalidOrExpired, foldl otp_step coll' later)"
proof -
  have "distinct (map key_of coll)"
    unfolding assms(1) by (rule history_unique) simp
  from verified_no_live[OF this assms(2)] have "no_live ph code pu coll'" .
  from later_no_live[OF this assms(3)] show ?thesis
    by (rule verifyOTP_when_no_live)
qed

definition ex_otp_later :: "otp_op list" where
  "ex_otp_later =
     [Verify 2000 ''01712345678'' ''999999'' ''login'',
      Issue ''654321'' 3000 ''01812345678'' ''signup'',
      Verify 3500 ''01712345678'' ''123456'' ''login'']"

theorem otp_consumed_at_most_once_witness:
  "verifyOTP 1000 ex_otps ''01712345678'' ''123456'' ''login''
     = (Verified, snd (verifyOTP 1000 ex_otps ''01712345678'' ''123456'' ''login''))
   \<and> verifyOTP 4000
        (foldl otp_step (snd (verifyOTP 1000 ex_otps ''01712345678'' ''123456'' ''login'')) ex_otp_later)
        ''01712345678'' ''123456'' ''login''
     = (Rejected InvalidOrExpired,
        foldl otp_step (snd (verifyOTP 1000 ex_otps ''01712345678'' ''123456'' ''login'')) ex_otp_later)"
proof -
  have h: "ex_otps = foldl otp_step [] [Issue ''123456'' 0 ''01712345678'' ''login'']"
    by (simp add: ex_otps_def)
  have v: "verifyOTP 1000 ex_otps ''01712345678'' ''123456'' ''login''
             = (Verified, snd (verifyOTP 1000 ex_otps ''01712345678'' ''123456'' ''login''))"
    by (simp add: ex_otps_def saveOTP_def verifyOTP_def Let_def)
  have l: "\<forall>op \<in> set ex_otp_later. \<not> issues ''01712345678'' ''123456'' ''login'' op"
    by (simp add: ex_otp_later_def)
  from otp_consumed_at_most_once[OF h v l, of 4000] v show ?thesis by simp
qed


section \<open>Rate limiter (src/middleware/auth.js, rateLimit)\<close>

record rate_data =
  count :: int
  resetTime :: int

record rate_options =
  windowMs :: int
  max_req :: int
  message :: string

text \<open>
  What the middleware does with the request: \<open>next()\<close> with the three
  \<open>X-RateLimit\<close> headers set (limit, remaining, reset time), or the 429
  answer with its message and \<open>retryAfter\<close>.
\<close>

datatype rate_response =
    Next int int int
  | TooManyRequests string int

text \<open>
  \<open>rateLimitStore\<close> is one map for the whole module: every limiter made by
  \<open>rateLimit\<close> reads and writes it, so it is an argument here. The first
  loop deletes every entry whose window is over by this limiter's
  \<open>windowMs\<close>.
\<close>

definition cleanup :: "int \<Rightarrow> int \<Rightarrow> (string \<rightharpoonup> rate_data) \<Rightarrow> (string \<rightharpoonup> rate_data)" where
  "cleanup w t store =
     (\<lambda>k. case store k of
            None \<Rightarrow> None
          | Some v \<Rightarrow> if t - resetTime v > w then None else Some v)"

definition rateLimit ::
  "rate_options \<Rightarrow> int \<Rightarrow> string \<Rightarrow> (string \<rightharpoonup> rate_data) \<Rightarrow> rate_response \<times> (string \<rightharpoonup> rate_data)" where
  "rateLimit opts t key store =
     (let store1 = cleanup (windowMs opts) t store;
          rateData = (case store1 key of None \<Rightarrow> \<lparr>count = 0, resetTime = t\<rparr> | Some v \<Rightarrow> v);
          rateData1 = (if t - resetTime rateData > windowMs opts
                       then \<lparr>count = 0, resetTime = t\<rparr> else rateData);
          rateData2 = rateData1\<lparr>count := count rateData1 + 1\<rparr>;
          store2 = store1(key \<mapsto> rateData2)
      in if count rateData2 > max_req opts
         then (TooManyRequests (message opts)
                 \<lceil>(of_int (resetTime rateData2 + windowMs opts - t) :: real) / 1000\<rceil>, store2)
         else (Next (max_req opts) (max 0 (max_req opts - count rateData2))
                 (resetTime rateData2 + windowMs opts), store2))"

definition loginRateLimit :: rate_options where
  "loginRateLimit = \<lparr>windowMs = 15 * 60 * 1000, max_req = 5,
     message = ''Too many login attempts. Please try again after 15 minutes.''\<rparr>"

definition otpRateLimit :: rate_options where
  "otpRateLimit = \<lparr>windowMs = 5 * 60 * 1000, max_req = 3,
     message = ''Too many OTP requests. Please try again after 5 minutes.''\<rparr>"

definition orderRateLimit :: rate_options where
  "orderRateLimit = \<lparr>windowMs = 60 * 60 * 1000, max_req = 10,
     message = ''Too many orders. Please try again later.''\<rparr>"

text \<open>
  Vocabulary of the claim: the start of the key's current window at time
  \<open>t\<close> (the stored start while no more than \<open>windowMs\<close> has elapsed
  past it, else \<open>t\<close> itself), and the key's request count within that
  window, the current request included.
\<close>

definition window_over :: "rate_options \<Rightarrow> int \<Rightarrow> string \<Rightarrow> (string \<rightharpoonup> rate_data) \<Rightarrow> bool" where
  "window_over opts t key store =
     (case store key of None \<Rightarrow> True | Some v \<Rightarrow> t - resetTime v > windowMs opts)"

definition window_start :: "rate_options \<Rightarrow> int \<Rightarrow> string \<Rightarrow> (string \<rightharpoonup> rate_data) \<Rightarrow> int" where
  "window_start opts t key store =
     (case store key of
        None \<Rightarrow> t
      | Some v \<Rightarrow> if t - resetTime v > windowMs opts then t else resetTime v)"

definition requests_in_window :: "rate_options \<Rightarrow> int \<Rightarrow> string \<Rightarrow> (string \<rightharpoonup> rate_data) \<Rightarrow> int" where
  "requests_in_window opts t key store =
     (case store key of
        None \<Rightarrow> 1
      | Some v \<Rightarrow> if t - resetTime v > windowMs opts then 1 else count v + 1)"

fun rejected :: "rate_response \<Rightarrow> bool" where
  "rejected (TooManyRequests msg r) = True"
| "rejected (Next l r s) = False"

fun retryAfter :: "rate_response \<Rightarrow> int option" where
  "retryAfter (TooManyRequests msg r) = Some r"
| "retryAfter (Next l r s) = None"

lemma rateLimit_entry:
  "snd (rateLimit opts t key store) key =
     Some \<lparr>count = requests_in_window opts t key store, resetTime = window_start opts t key store\<rparr>"
  by (auto simp: rateLimit_def cleanup_def Let_def requests_in_window_def window_start_def
      split: option.splits)

lemma rateLimit_rejected:
  "rejected (fst (rateLimit opts t key store)) \<longleftrightarrow> requests_in_window opts t key store > max_req opts"
  by (auto simp: rateLimit_def cleanup_def Let_def requests_in_window_def
      split: option.splits)

lemma rateLimit_retryAfter:
  "retryAfter (fst (rateLimit opts t key store)) = Some r \<Longrightarrow>
   r = \<lceil>(of_int (window_start opts t key store + windowMs opts - t) :: real) / 1000\<rceil>"
  by (auto simp: rateLimit_def cleanup_def Let_def window_start_def
      split: option.splits if_splits)

lemma ceiling_seconds:
  "r = \<lceil>(of_int ms :: real) / 1000\<rceil> \<longleftrightarrow> 1000 * (r - 1) < ms \<and> ms \<le> 1000 * r"
proof -
  define x where "x = (of_int ms :: real) / 1000"
  have "r = \<lceil>x\<rceil> \<longleftrightarrow> of_int r - 1 < x \<and> x \<le> of_int r"
  proof
    assume r: "r = \<lceil>x\<rceil>"
    show "of_int r - 1 < x \<and> x \<le> of_int r"
      unfolding r by (rule ceiling_correct)
  next
    assume "of_int r - 1 < x \<and> x \<le> of_int r"
    then have "\<lceil>x\<rceil> = r" by (intro ceiling_unique) simp_all
    then show "r = \<lceil>x\<rceil>" by simp
  qed
  also have "\<dots> \<longleftrightarrow> (of_int (1000 * (r - 1)) :: real) < of_int ms \<and> (of_int ms :: real) \<le> of_int (1000 * r)"
    by (simp add: x_def field_simps)
  also have "\<dots> \<longleftrightarrow> 1000 * (r - 1) < ms \<and> ms \<le> 1000 * r"
    by (simp only: of_int_less_iff of_int_le_iff)
  finally show ?thesis by (simp add: x_def)
qed

text \<open>A run of requests of one key through one limiter, at the given times.\<close>

fun requests :: "rate_options \<Rightarrow> string \<Rightarrow> (string \<rightharpoonup> rate_data) \<Rightarrow> int list \<Rightarrow> rate_response list" where
  "requests opts key store [] = []"
| "requests opts key store (t # ts) =
     fst (rateLimit opts t key store) # requests opts key (snd (rateLimit opts t key store)) ts"

lemma upt_shift: "map f [1..<Suc n + 1] = f 1 # map (\<lambda>i. f (Suc i)) [1..<n + 1]"
proof -
  have "[1..<Suc n + 1] = 1 # map Suc [1..<n + 1]"
    by (simp add: upt_conv_Cons map_Suc_upt del: upt_Suc)
  then show ?thesis by (simp add: comp_def del: upt_Suc)
qed

lemma requests_same_window:
  assumes "store key = Some \<lparr>count = c, resetTime = t0\<rparr>" and "\<forall>t \<in> set ts. t - t0 \<le> windowMs opts"
  shows "map rejected (requests opts key store ts)
           = map (\<lambda>n. c + int n > max_req opts) [1..<length ts + 1]"
  using assms
proof (induction ts arbitrary: store c)
  case Nil
  then show ?case by simp
next
  case (Cons t ts)
  from Cons.prems have n: "requests_in_window opts t key store = c + 1"
    and w: "window_start opts t key store = t0"
    by (simp_all add: requests_in_window_def window_start_def)
  have e: "snd (rateLimit opts t key store) key = Some \<lparr>count = c + 1, resetTime = t0\<rparr>"
    by (simp add: rateLimit_entry n w)
  from Cons.prems have "\<forall>t \<in> set ts. t - t0 \<le> windowMs opts" by simp
  from Cons.IH[of "snd (rateLimit opts t key store)" "c + 1", OF e this]
  have "map rejected (requests opts key (snd (rateLimit opts t key store)) ts)
          = map (\<lambda>n. c + 1 + int n > max_req opts) [1..<length ts + 1]" .
  moreover have "rejected (fst (rateLimit opts t key store)) \<longleftrightarrow> c + 1 > max_req opts"
    by (simp add: rateLimit_rejected n)
  moreover have "map (\<lambda>n. c + int n > max_req opts) [1..<Suc (length ts) + 1]
                   = (c + 1 > max_req opts) # map (\<lambda>n. c + 1 + int n > max_req opts) [1..<length ts + 1]"
    by (simp only: upt_shift) (simp add: algebra_simps del: upt_Suc)
  ultimately show ?case by (simp del: upt_Suc)
qed

lemma requests_fresh_window:
  assumes "window_over opts t0 key store" and "\<forall>t \<in> set ts. t - t0 \<le> windowMs opts"
  shows "map rejected (requests opts key store (t0 # ts))
           = map (\<lambda>n. int n > max_req opts) [1..<length ts + 2]"
proof -
  from assms(1) have n: "requests_in_window opts t0 key store = 1"
    and w: "window_start opts t0 key store = t0"
    by (auto simp: window_over_def requests_in_window_def window_start_def split: option.splits)
  have e: "snd (rateLimit opts t0 key store) key = Some \<lparr>count = 1, resetTime = t0\<rparr>"
    by (simp add: rateLimit_entry n w)
  have r: "rejected (fst (rateLimit opts t0 key store)) \<longleftrightarrow> 1 > max_req opts"
    by (simp add: rateLimit_rejected n)
  have "map (\<lambda>n. int n > max_req opts) [1..<Suc (length ts) + 1]
          = (1 > max_req opts) # map (\<lambda>n. 1 + int n > max_req opts) [1..<length ts + 1]"
    by (simp only: upt_shift) (simp add: algebra_simps del: upt_Suc)
  with requests_same_window[of "snd (rateLimit opts t0 key store)" key 1 t0 ts opts, OF e assms(2)] r
  show ?thesis
    by (simp del: upt_Suc)
qed

text \<open>
  C5. For every key, store and configuration, a check is rejected exactly
  when the key's request count within the current window, the current request
  included, exceeds \<open>max\<close>, and that count and window are what the store
  holds for the key afterwards. When the key has no window or more than
  \<open>windowMs\<close> has elapsed past its window's start, the request opens a
  fresh window (count 1, starting now) and, for a limit of at least one
  request, is admitted; of the requests the key then makes within
  \<open>windowMs\<close> of that start, the first \<open>max\<close> are admitted and
  every further one is rejected. A rejection reports as \<open>retryAfter\<close>
  the time until the current window closes in whole seconds, rounded up: the
  least number of seconds that covers it.
\<close>

theorem rateLimit_fixed_window:
  "(rejected (fst (rateLimit opts t key store)) \<longleftrightarrow> requests_in_window opts t key store > max_req opts)
   \<and> snd (rateLimit opts t key store) key =
       Some \<lparr>count = requests_in_window opts t key store, resetTime = window_start opts t key store\<rparr>
   \<and> (window_over opts t key store \<and> 1 \<le> max_req opts \<longrightarrow>
        \<not> rejected (fst (rateLimit opts t key store))
        \<and> snd (rateLimit opts t key store) key = Some \<lparr>count = 1, resetTime = t\<rparr>)
   \<and> (window_over opts t key store \<and> (\<forall>u \<in> set ts. u - t \<le> windowMs opts) \<longrightarrow>
        map rejected (requests opts key store (t # ts))
          = map (\<lambda>n. int n > max_req opts) [1..<length ts + 2])
   \<and> (\<forall>r. retryAfter (fst (rateLimit opts t key store)) = Some r \<longrightarrow>
        rejected (fst (rateLimit opts t key store))
        \<and> 1000 * (r - 1) < window_start opts t key store + windowMs opts - t
        \<and> window_start opts t key store + windowMs opts - t \<le> 1000 * r)"
proof (intro conjI impI allI)
  show "rejected (fst (rateLimit opts t key store)) \<longleftrightarrow> requests_in_window opts t key store > max_req opts"
    by (rule rateLimit_rejected)
  show e: "snd (rateLimit opts t key store) key =
       Some \<lparr>count = requests_in_window opts t key store, resetTime = window_start opts t key store\<rparr>"
    by (rule rateLimit_entry)
  {
    assume o: "window_over opts t key store \<and> 1 \<le> max_req opts"
    then have 1: "requests_in_window opts t key store = 1" and 2: "window_start opts t key store = t"
      by (auto simp: window_over_def requests_in_window_def window_start_def split: option.splits)
    from o 1 show "\<not> rejected (fst (rateLimit opts t key store))"
      by (simp add: rateLimit_rejected)
    from e 1 2 show "snd (rateLimit opts t key store) key = Some \<lparr>count = 1, resetTime = t\<rparr>"
      by simp
  }
  {
    assume "window_over opts t key store \<and> (\<forall>u \<in> set ts. u - t \<le> windowMs opts)"
    then show "map rejected (requests opts key store (t # ts))
                 = map (\<lambda>n. int n > max_req opts) [1..<length ts + 2]"
      by (intro requests_fresh_window) simp_all
  }
  {
    fix r assume r: "retryAfter (fst (rateLimit opts t key store)) = Some r"
    then show "rejected (fst (rateLimit opts t key store))"
      by (cases "fst (rateLimit opts t key store)") auto
    from rateLimit_retryAfter[OF r]
    show "1000 * (r - 1) < window_start opts t key store + windowMs opts - t"
      and "window_start opts t key store + windowMs opts - t \<le> 1000 * r"
      by (simp_all only: ceiling_seconds)
  }
qed

definition ex_store :: "string \<rightharpoonup> rate_data" where
  "ex_store = [''10.0.0.7'' \<mapsto> \<lparr>count = 3, resetTime = 0\<rparr>]"


theorem rateLimit_fixed_window_witness:
  "fst (rateLimit otpRateLimit 2500 ''10.0.0.7'' ex_store)
     = TooManyRequests ''Too many OTP requests. Please try again after 5 minutes.'' 298
   \<and> \<not> rejected (fst (rateLimit otpRateLimit 300001 ''10.0.0.7'' ex_store))
   \<and> snd (rateLimit otpRateLimit 300001 ''10.0.0.7'' ex_store) ''10.0.0.7''
       = Some \<lparr>count = 1, resetTime = 300001\<rparr>
   \<and> map rejected (requests otpRateLimit ''10.0.0.7'' ex_store [300001, 300002, 400000, 600001, 600001])
       = [False, False, False, True, True]"
proof -
  let ?ts = "[300002, 400000, 600001, 600001] :: int list"
  have w: "window_over otpRateLimit 300001 ''10.0.0.7'' ex_store \<and> 1 \<le> max_req otpRateLimit"
    by (simp add: window_over_def otpRateLimit_def ex_store_def)
  have w': "window_over otpRateLimit 300001 ''10.0.0.7'' ex_store
              \<and> (\<forall>u \<in> set ?ts. u - 300001 \<le> windowMs otpRateLimit)"
    by (simp add: window_over_def otpRateLimit_def ex_store_def)
  have f: "fst (rateLimit otpRateLimit 2500 ''10.0.0.7'' ex_store)
     = TooManyRequests ''Too many OTP requests. Please try again after 5 minutes.'' 298"
    by (simp add: rateLimit_def otpRateLimit_def ex_store_def cleanup_def Let_def)
  note t = rateLimit_fixed_window[of otpRateLimit 300001 "''10.0.0.7''" ex_store ?ts]
  from t have "window_over otpRateLimit 300001 ''10.0.0.7'' ex_store \<and> 1 \<le> max_req otpRateLimit \<longrightarrow>
        \<not> rejected (fst (rateLimit otpRateLimit 300001 ''10.0.0.7'' ex_store))
        \<and> snd (rateLimit otpRateLimit 300001 ''10.0.0.7'' ex_store) ''10.0.0.7''
            = Some \<lparr>count = 1, resetTime = 300001\<rparr>"
    by (elim conjE)
  from this w have c: "\<not> rejected (fst (rateLimit otpRateLimit 300001 ''10.0.0.7'' ex_store))
        \<and> snd (rateLimit otpRateLimit 300001 ''10.0.0.7'' ex_store) ''10.0.0.7''
            = Some \<lparr>count = 1, resetTime = 300001\<rparr>"
    by (rule mp)
  from t have "window_over otpRateLimit 300001 ''10.0.0.7'' ex_store
                 \<and> (\<forall>u \<in> set ?ts. u - 300001 \<le> windowMs otpRateLimit) \<longrightarrow>
        map rejected (requests otpRateLimit ''10.0.0.7'' ex_store (300001 # ?ts))
          = map (\<lambda>n. int n > max_req otpRateLimit) [1..<length ?ts + 2]"
    by (elim conjE)
  from this w' have "map rejected (requests otpRateLimit ''10.0.0.7'' ex_store (300001 # ?ts))
          = map (\<lambda>n. int n > max_req otpRateLimit) [1..<length ?ts + 2]"
    by (rule mp)
  also have "\<dots> = [False, False, False, True, True]"
    by (simp add: otpRateLimit_def upt_conv_Cons del: upt_Suc)
  finally have b: "map rejected (requests otpRateLimit ''10.0.0.7'' ex_store
                      [300001, 300002, 400000, 600001, 600001]) = [False, False, False, True, True]" .
  from c b have "(\<not> rejected (fst (rateLimit otpRateLimit 300001 ''10.0.0.7'' ex_store))
        \<and> snd (rateLimit otpRateLimit 300001 ''10.0.0.7'' ex_store) ''10.0.0.7''
            = Some \<lparr>count = 1, resetTime = 300001\<rparr>)
       \<and> map rejected (requests otpRateLimit ''10.0.0.7'' ex_store
                      [300001, 300002, 400000, 600001, 600001]) = [False, False, False, True, True]"
    by (rule conjI)
  with f show ?thesis by simp
qed


text \<open>
  The three limiters of the module share the one store, keyed by the client
  address alone, and each runs its clean-up with its own \<open>windowMs\<close>. So
  the statement above, which is about one check on whatever the store holds,
  does not make the limiters independent of each other: a client that has
  used up its five logins is rejected at its sixth login 400 seconds into
  the 15 minutes, but admitted if any client's OTP request came just before,
  because that request's clean-up (5 minutes) has removed the login window.
\<close>

definition ex_login_store :: "string \<rightharpoonup> rate_data" where
  "ex_login_store = [''10.0.0.7'' \<mapsto> \<lparr>count = 5, resetTime = 0\<rparr>]"

lemma cleanup_ends_other_limiters_windows:
  "rejected (fst (rateLimit loginRateLimit 400001 ''10.0.0.7'' ex_login_store))
   \<and> \<not> rejected (fst (rateLimit loginRateLimit 400001 ''10.0.0.7''
                       (snd (rateLimit otpRateLimit 400000 ''10.0.0.8'' ex_login_store))))"
  by (simp add: rateLimit_def loginRateLimit_def otpRateLimit_def ex_login_store_def cleanup_def
      Let_def)


section \<open>Reviews (src/unnamed/part_000, the reviews router)\<close>

text \<open>
  \<open>Math.round\<close>: the nearest integer, a tie going up.
\<close>

definition js_round :: "real \<Rightarrow> int" where
  "js_round x = \<lfloor>x + 1 / 2\<rfloor>"

text \<open>
  The value \<open>updateProductRating\<close> is called with (\<open>givenId\<close> below, the
  \<open>productId\<close> of the source). The submission passes
  the request's \<open>productId\<close>, a string; the moderation passes
  \<open>review.product\<close>, the \<open>ObjectId\<close> read from the stored review.
\<close>

datatype id_value = ObjectId object_id | Str string

text \<open>
  The aggregation of \<open>updateProductRating\<close>. Mongoose does not cast the
  stages of an aggregation pipeline, so the \<open>$match\<close> stage compares the
  value it is given with the stored \<open>product\<close> of each review, which the
  review schema types as \<open>ObjectId\<close>: a string matches no review. The
  \<open>$group\<close> stage yields one result with the average and the count of the
  matched reviews, and no result at all when nothing matched.
\<close>

definition approved_ratings :: "review_doc list \<Rightarrow> id_value \<Rightarrow> real list" where
  "approved_ratings rs givenId =
     map review_rating
       (filter (\<lambda>r. ObjectId (review_product r) = givenId \<and> review_status r = ''approved'') rs)"

text \<open>
  \<open>Math.round(result[0].averageRating * 10) / 10\<close>. The code computes the
  average and the rounding in double precision. On ratings that are all
  integers the sum is exact and the doubles yield the value of the exact
  formula: the mean times ten is at a tie only at \<open>m + 1/2\<close> for an integer
  \<open>m\<close> from 10 to 49, where the doubles give \<open>m + 1/2\<close> itself, and is
  otherwise at least \<open>1 / (2 * count)\<close> away from a tie, which is more than the
  error of the doubles for any number of reviews a store holds. On other
  ratings the doubles can yield another value than the exact formula
  (approved ratings 1.1 and 4.6 store 2.8, the exact formula gives 2.9);
  there the result is \<open>dbl\<close> of the matched ratings, a parameter of the
  model.
\<close>

definition is_integer :: "real \<Rightarrow> bool" where
  "is_integer x = (of_int \<lfloor>x\<rfloor> = x)"

definition rounded_average :: "(real list \<Rightarrow> real) \<Rightarrow> real list \<Rightarrow> real" where
  "rounded_average dbl matched =
     (if list_all is_integer matched
      then of_int (js_round (sum_list matched / of_nat (length matched) * 10)) / 10
      else dbl matched)"

text \<open>
  \<open>updateProductRating\<close>, lines 251-271. \<open>Product.findByIdAndUpdate\<close>
  casts the id it is given; a value that is no \<open>ObjectId\<close> throws, which
  the function's own \<open>catch\<close> swallows.
\<close>

definition updateProductRating :: "caster \<Rightarrow> (real list \<Rightarrow> real) \<Rightarrow> db \<Rightarrow> id_value \<Rightarrow> db" where
  "updateProductRating cast dbl d givenId =
     (let matched = approved_ratings (reviews d) givenId in
      if length matched > 0 then
        (case (case givenId of ObjectId i \<Rightarrow> Some i | Str s \<Rightarrow> cast s) of
           None \<Rightarrow> d
         | Some pid \<Rightarrow>
             (case products d pid of
                None \<Rightarrow> d
              | Some p \<Rightarrow> d\<lparr>products := (products d)(pid \<mapsto>
                            p\<lparr>rating := rounded_average dbl matched,
                              reviewCount := int (length matched)\<rparr>)\<rparr>))
      else d)"

text \<open>
  The body of a submission: \<open>None\<close> is an absent field, the ids are the
  strings of the request, the rating is a number.
\<close>

record review_body =
  rb_productId :: "string option"
  rb_orderId :: "string option"
  rb_rating :: "real option"
  rb_comment :: "string option"

datatype review_response =
    ReviewFieldsRequired
  | RatingOutOfRange
  | AlreadyReviewed
  | FailedToSubmitReview
  | ReviewSubmitted review_doc
  | InvalidModerationStatus
  | ReviewNotFound
  | FailedToModerateReview
  | ReviewModerated review_doc

text \<open>
  \<open>router.post('/')\<close>, behind \<open>authenticate\<close>: \<open>uid\<close> is the caller
  (\<open>req.userId\<close>, an \<open>ObjectId\<close>) and \<open>rid\<close> the id the store gives the
  new review. \<open>Review.findOne\<close>, \<open>Order.findOne\<close> and \<open>Review.create\<close>
  cast the ids they are given to the \<open>ObjectId\<close> type of the schema; an id
  that does not cast throws and the handler's \<open>catch\<close> answers 500. The
  recomputation is called with the request's string.
\<close>

definition createReview ::
  "caster \<Rightarrow> (real list \<Rightarrow> real) \<Rightarrow> object_id \<Rightarrow> object_id \<Rightarrow> db \<Rightarrow> review_body
     \<Rightarrow> review_response \<times> db" where
  "createReview cast dbl uid rid d body =
     (case (rb_productId body, rb_rating body, rb_comment body) of
        (Some givenId, Some r, Some c) \<Rightarrow>
          if givenId = [] \<or> r = 0 \<or> c = [] then (ReviewFieldsRequired, d)
          else if r < 1 \<or> r > 5 then (RatingOutOfRange, d)
          else
            (case cast givenId of
               None \<Rightarrow> (FailedToSubmitReview, d)
             | Some pid \<Rightarrow>
                 if list_ex (\<lambda>x. review_product x = pid \<and> review_user x = uid) (reviews d)
                 then (AlreadyReviewed, d)
                 else
                   (case (case rb_orderId body of None \<Rightarrow> Some None
                          | Some orderId \<Rightarrow> map_option Some (cast orderId)) of
                      None \<Rightarrow> (FailedToSubmitReview, d)
                    | Some oid \<Rightarrow>
                        (let verifiedPurchase =
                               (if truthy_str (rb_orderId body)
                                then list_ex (\<lambda>x. Some (order_id x) = oid \<and> order_user x = Some uid
                                        \<and> list_ex (\<lambda>i. item_product i = pid) (order_items x)
                                        \<and> status x = ''delivered'') (orders d)
                                else False);
                             review = \<lparr>review_id = rid, review_product = pid, review_user = uid,
                                       review_order = oid, review_rating = r, review_comment = c,
                                       isVerifiedPurchase = verifiedPurchase,
                                       review_status = ''pending'',
                                       adminResponse = None, adminResponseDate = None\<rparr>;
                             d1 = d\<lparr>reviews := reviews d @ [review]\<rparr>
                         in (ReviewSubmitted review,
                             updateProductRating cast dbl d1 (Str givenId)))))
      | _ \<Rightarrow> (ReviewFieldsRequired, d))"

text \<open>
  \<open>router.patch('/:reviewId/moderate')\<close>, behind \<open>adminOnly\<close>.
  \<open>Review.findByIdAndUpdate\<close> casts the \<open>reviewId\<close> of the path; the
  recomputation is called with the stored \<open>review.product\<close>.
\<close>

definition moderateReview ::
  "caster \<Rightarrow> (real list \<Rightarrow> real) \<Rightarrow> int \<Rightarrow> db \<Rightarrow> string \<Rightarrow> string \<Rightarrow> string option
     \<Rightarrow> review_response \<times> db" where
  "moderateReview cast dbl t d reviewId st resp =
     (if st \<notin> set [''approved'', ''rejected''] then (InvalidModerationStatus, d)
      else
        (case cast reviewId of
           None \<Rightarrow> (FailedToModerateReview, d)
         | Some rid \<Rightarrow>
             (case findIndex (\<lambda>r. review_id r = rid) (reviews d) of
                None \<Rightarrow> (ReviewNotFound, d)
              | Some i \<Rightarrow>
                  (let review0 = (reviews d ! i)\<lparr>review_status := st\<rparr>;
                       review = (if truthy_str resp
                                 then review0\<lparr>adminResponse := resp, adminResponseDate := Some t\<rparr>
                                 else review0);
                       d1 = d\<lparr>reviews := (reviews d)[i := review]\<rparr>;
                       d2 = (if st = ''approved''
                             then updateProductRating cast dbl d1 (ObjectId (review_product review))
                             else d1)
                   in (ReviewModerated review, d2)))))"

text \<open>The specification's words: the arithmetic mean, rounded to one decimal place.\<close>

definition mean :: "real list \<Rightarrow> real" where
  "mean xs = sum_list xs / of_nat (length xs)"

definition round_1dp :: "real \<Rightarrow> real" where
  "round_1dp x = of_int (round (x * 10)) / 10"

definition stored_rating :: "db \<Rightarrow> object_id \<Rightarrow> (real \<times> int) option" where
  "stored_rating d pid = map_option (\<lambda>p. (rating p, reviewCount p)) (products d pid)"

text \<open>
  A history: two customers review the product with 5 and 1, the admin
  approves both reviews and then moderates the second to rejected. The
  ratings are integers, so the doubles on other ratings do not enter and the
  examples pass a constant for them.
\<close>

definition ex_dbl :: "real list \<Rightarrow> real" where
  "ex_dbl xs = 0"

definition ex_review_body :: "real \<Rightarrow> review_body" where
  "ex_review_body r = \<lparr>rb_productId = Some ''64b7f0000000000000000001'', rb_orderId = None,
                         rb_rating = Some r, rb_comment = Some ''text''\<rparr>"

definition ex_review :: "object_id \<Rightarrow> object_id \<Rightarrow> real \<Rightarrow> string \<Rightarrow> review_doc" where
  "ex_review rid uid r st =
     \<lparr>review_id = rid, review_product = ex_pid, review_user = uid, review_order = None,
      review_rating = r, review_comment = ''text'', isVerifiedPurchase = False,
      review_status = st, adminResponse = None, adminResponseDate = None\<rparr>"

definition ex_r1 :: object_id where
  "ex_r1 = ''64b7f00000000000000000d1''"

definition ex_r2 :: object_id where
  "ex_r2 = ''64b7f00000000000000000d2''"

definition ex_r3 :: object_id where
  "ex_r3 = ''64b7f00000000000000000d3''"

definition ex_rdb2 :: db where
  "ex_rdb2 = snd (createReview hex24 ex_dbl ''u2'' ex_r2
                    (snd (createReview hex24 ex_dbl ''u1'' ex_r1 ex_db (ex_review_body 5)))
                    (ex_review_body 1))"

definition ex_rdb3 :: db where
  "ex_rdb3 = snd (moderateReview hex24 ex_dbl 10 ex_rdb2 ex_r1 ''approved'' None)"

definition ex_rdb4 :: db where
  "ex_rdb4 = snd (moderateReview hex24 ex_dbl 11 ex_rdb3 ex_r2 ''approved'' None)"

definition ex_rdb5 :: db where
  "ex_rdb5 = snd (moderateReview hex24 ex_dbl 12 ex_rdb4 ex_r2 ''rejected'' None)"


subsection \<open>Properties of the reviews\<close>

lemma round_1dp_close: "\<bar>round_1dp x - x\<bar> \<le> 1 / 20"
proof -
  have "\<bar>of_int (round (x * 10)) - x * 10\<bar> \<le> 1 / 2"
    by (rule of_int_round_abs_le)
  then have "\<bar>(of_int (round (x * 10)) - x * 10) / 10\<bar> \<le> (1 / 2) / 10"
    by (simp only: abs_divide) simp
  then show ?thesis by (simp add: round_1dp_def field_simps)
qed

lemma rounded_average_integers:
  "list_all is_integer matched \<Longrightarrow> rounded_average dbl matched = round_1dp (mean matched)"
  by (simp add: rounded_average_def round_1dp_def mean_def js_round_def round_def)

lemma approved_ratings_Str: "approved_ratings rs (Str s) = []"
  by (simp add: approved_ratings_def)

lemma updateProductRating_Str: "updateProductRating cast dbl d (Str s) = d"
  by (simp add: updateProductRating_def approved_ratings_Str)

lemma updateProductRating_product:
  assumes "products d pid = Some p" and "approved_ratings (reviews d) (ObjectId pid) \<noteq> []"
  shows "products (updateProductRating cast dbl d (ObjectId pid)) =
           (products d)(pid \<mapsto>
              p\<lparr>rating := rounded_average dbl (approved_ratings (reviews d) (ObjectId pid)),
                reviewCount := int (length (approved_ratings (reviews d) (ObjectId pid)))\<rparr>)"
  using assms by (simp add: updateProductRating_def Let_def)

lemma updateProductRating_reviews: "reviews (updateProductRating cast dbl d v) = reviews d"
  by (simp add: updateProductRating_def Let_def split: option.splits)

lemma ex_hex24:
  "hex24 ''64b7f0000000000000000001'' = Some ex_pid"
  "hex24 ex_r1 = Some ex_r1" "hex24 ex_r2 = Some ex_r2" "hex24 ex_r3 = Some ex_r3"
  by (simp_all add: hex24_def ex_pid_def ex_r1_def ex_r2_def ex_r3_def)

lemma ex_ids_distinct: "ex_r1 \<noteq> ex_r2" "ex_r2 \<noteq> ex_r1"
  by (simp_all add: ex_r1_def ex_r2_def)

lemma ex_rdb2_eq:
  "ex_rdb2 = ex_db\<lparr>reviews := [ex_review ex_r1 ''u1'' 5 ''pending'', ex_review ex_r2 ''u2'' 1 ''pending'']\<rparr>"
  by (simp add: ex_rdb2_def createReview_def ex_review_body_def ex_db_def ex_review_def
      updateProductRating_Str ex_hex24 Let_def)

lemma ex_rdb3_eq:
  "ex_rdb3 = \<lparr>products = [ex_pid \<mapsto> ex_product\<lparr>rating := 5, reviewCount := 1\<rparr>], orders = [],
     reviews = [ex_review ex_r1 ''u1'' 5 ''approved'', ex_review ex_r2 ''u2'' 1 ''pending'']\<rparr>"
  by (simp add: ex_rdb3_def ex_rdb2_eq moderateReview_def ex_db_def ex_review_def ex_hex24
      ex_ids_distinct updateProductRating_def approved_ratings_def rounded_average_def
      is_integer_def Let_def js_round_def)

lemma ex_rdb4_eq:
  "ex_rdb4 = \<lparr>products = [ex_pid \<mapsto> ex_product\<lparr>rating := 3, reviewCount := 2\<rparr>], orders = [],
     reviews = [ex_review ex_r1 ''u1'' 5 ''approved'', ex_review ex_r2 ''u2'' 1 ''approved'']\<rparr>"
  by (simp add: ex_rdb4_def ex_rdb3_eq moderateReview_def ex_review_def ex_hex24
      ex_ids_distinct updateProductRating_def approved_ratings_def rounded_average_def
      is_integer_def Let_def js_round_def)

lemma ex_rdb5_eq:
  "ex_rdb5 = \<lparr>products = [ex_pid \<mapsto> ex_product\<lparr>rating := 3, reviewCount := 2\<rparr>], orders = [],
     reviews = [ex_review ex_r1 ''u1'' 5 ''approved'', ex_review ex_r2 ''u2'' 1 ''rejected'']\<rparr>"
  by (simp add: ex_rdb5_def ex_rdb4_eq moderateReview_def ex_review_def ex_hex24
      ex_ids_distinct Let_def)

text \<open>
  C8. When a moderation sets a review to approved, the review's product
  exists and the ratings of the reviews of that product that are approved
  after the moderation are integers (as the specification has ratings): the
  moderated review is among those reviews, the product's rating becomes the
  arithmetic mean of their ratings rounded to one decimal place and its
  reviewCount their number, and no other product changes. The new values
  are a function of the approved reviews alone: the rating stored before
  does not enter.
\<close>

theorem moderate_approved_recomputes_rating:
  assumes "moderateReview cast dbl t d reviewId ''approved'' resp = (ReviewModerated rv, d')"
    and "products d (review_product rv) = Some p"
    and "list_all is_integer (approved_ratings (reviews d') (ObjectId (review_product rv)))"
  shows "rv \<in> set (reviews d') \<and> review_status rv = ''approved''
         \<and> approved_ratings (reviews d') (ObjectId (review_product rv)) \<noteq> []
         \<and> products d' = (products d)(review_product rv \<mapsto>
               p\<lparr>rating := round_1dp (mean (approved_ratings (reviews d')
                                              (ObjectId (review_product rv)))),
                 reviewCount := int (length (approved_ratings (reviews d')
                                               (ObjectId (review_product rv))))\<rparr>)"
proof -
  from assms(1) obtain rid where rid: "cast reviewId = Some rid"
    by (auto simp: moderateReview_def split: option.splits)
  from assms(1) rid obtain i where i: "findIndex (\<lambda>r. review_id r = rid) (reviews d) = Some i"
    by (auto simp: moderateReview_def split: option.splits)
  from findIndex_Some[OF i] have il: "i < length (reviews d)" by simp
  define d1 where "d1 = d\<lparr>reviews := (reviews d)[i := rv]\<rparr>"
  from assms(1) rid i have rv: "review_status rv = ''approved''"
    by (auto simp: moderateReview_def Let_def split: if_splits)
  from assms(1) rid i have d': "d' = updateProductRating cast dbl d1 (ObjectId (review_product rv))"
    by (auto simp: moderateReview_def Let_def d1_def split: if_splits)
  have r': "reviews d' = reviews d1" by (simp add: d' updateProductRating_reviews)
  have mem: "rv \<in> set (reviews d1)"
    using il by (simp add: d1_def set_update_memI)
  with rv have ne: "approved_ratings (reviews d1) (ObjectId (review_product rv)) \<noteq> []"
    by (auto simp: approved_ratings_def filter_empty_conv)
  have p1: "products d1 (review_product rv) = Some p"
    using assms(2) by (simp add: d1_def)
  from assms(3) have int: "list_all is_integer (approved_ratings (reviews d1) (ObjectId (review_product rv)))"
    by (simp add: r')
  have "products d' = (products d1)(review_product rv \<mapsto>
          p\<lparr>rating := rounded_average dbl (approved_ratings (reviews d1) (ObjectId (review_product rv))),
            reviewCount := int (length (approved_ratings (reviews d1) (ObjectId (review_product rv))))\<rparr>)"
    unfolding d' by (rule updateProductRating_product[OF p1 ne])
  moreover have "rounded_average dbl (approved_ratings (reviews d1) (ObjectId (review_product rv)))
                   = round_1dp (mean (approved_ratings (reviews d1) (ObjectId (review_product rv))))"
    by (rule rounded_average_integers[OF int])
  moreover have "products d1 = products d" by (simp add: d1_def)
  ultimately have "products d' = (products d)(review_product rv \<mapsto>
          p\<lparr>rating := round_1dp (mean (approved_ratings (reviews d1) (ObjectId (review_product rv)))),
            reviewCount := int (length (approved_ratings (reviews d1) (ObjectId (review_product rv))))\<rparr>)"
    by simp
  with mem rv ne show ?thesis by (simp only: r') simp
qed

theorem moderate_approved_recomputes_rating_witness:
  "moderateReview hex24 ex_dbl 11 ex_rdb3 ex_r2 ''approved'' None
     = (ReviewModerated (ex_review ex_r2 ''u2'' 1 ''approved''), ex_rdb4)
   \<and> approved_ratings (reviews ex_rdb4) (ObjectId ex_pid) = [5, 1]
   \<and> stored_rating ex_rdb3 ex_pid = Some (5, 1)
   \<and> stored_rating ex_rdb4 ex_pid = Some (3, 2)"
proof -
  have m: "moderateReview hex24 ex_dbl 11 ex_rdb3 ex_r2 ''approved'' None
     = (ReviewModerated (ex_review ex_r2 ''u2'' 1 ''approved''), ex_rdb4)"
    by (simp add: ex_rdb4_eq ex_rdb3_eq moderateReview_def ex_review_def ex_hex24
      ex_ids_distinct updateProductRating_def approved_ratings_def rounded_average_def
      is_integer_def Let_def js_round_def)
  have rp: "review_product (ex_review ex_r2 ''u2'' 1 ''approved'') = ex_pid"
    by (simp add: ex_review_def)
  have p: "products ex_rdb3 (review_product (ex_review ex_r2 ''u2'' 1 ''approved''))
             = Some (ex_product\<lparr>rating := 5, reviewCount := 1\<rparr>)"
    by (simp add: ex_rdb3_eq rp)
  have a: "approved_ratings (reviews ex_rdb4) (ObjectId ex_pid) = [5, 1]"
    by (simp add: ex_rdb4_eq approved_ratings_def ex_review_def)
  have i: "list_all is_integer (approved_ratings (reviews ex_rdb4)
             (ObjectId (review_product (ex_review ex_r2 ''u2'' 1 ''approved''))))"
    by (simp add: rp a is_integer_def)
  have r: "round_1dp (mean [5, 1]) = 3"
    by (simp add: round_1dp_def mean_def round_def)
  from moderate_approved_recomputes_rating[OF m p i]
  have "products ex_rdb4 = (products ex_rdb3)(ex_pid \<mapsto>
          ex_product\<lparr>rating := 5, reviewCount := 1, rating := 3, reviewCount := 2\<rparr>)"
    by (simp add: rp a r)
  then have "stored_rating ex_rdb4 ex_pid = Some (3, 2)"
    by (simp add: stored_rating_def)
  moreover have "stored_rating ex_rdb3 ex_pid = Some (5, 1)"
    by (simp add: stored_rating_def ex_rdb3_eq)
  ultimately show ?thesis using m a by simp
qed

text \<open>
  C10. A submission leaves every product as it was, its rating and
  reviewCount among the rest, whatever the request and the store: the
  review it stores starts pending, so the approved reviews of every product
  are the same before and after, and the recomputation it triggers is
  handed the request's string, matches no review and skips the product
  update. Of the two operations on reviews only the moderation changes a
  product. (After a moderation to rejected, which triggers no
  recomputation, the product can store the rating of reviews that are no
  longer approved; a submission leaves that too as it was.)
\<close>

theorem submission_leaves_rating:
  "products (snd (createReview cast dbl uid rid d body)) = products d
   \<and> orders (snd (createReview cast dbl uid rid d body)) = orders d
   \<and> (\<forall>rv. fst (createReview cast dbl uid rid d body) = ReviewSubmitted rv \<longrightarrow>
         review_status rv = ''pending''
         \<and> reviews (snd (createReview cast dbl uid rid d body)) = reviews d @ [rv]
         \<and> (\<forall>v. approved_ratings (reviews (snd (createReview cast dbl uid rid d body))) v
                  = approved_ratings (reviews d) v))
   \<and> ((\<forall>rv. fst (createReview cast dbl uid rid d body) \<noteq> ReviewSubmitted rv) \<longrightarrow>
         snd (createReview cast dbl uid rid d body) = d)"
  by (auto simp: createReview_def updateProductRating_Str approved_ratings_def Let_def
      split: option.splits)

theorem submission_leaves_rating_witness:
  "stored_rating ex_rdb5 ex_pid = Some (3, 2)
   \<and> approved_ratings (reviews ex_rdb5) (ObjectId ex_pid) = [5]
   \<and> fst (createReview hex24 ex_dbl ''u3'' ex_r3 ex_rdb5 (ex_review_body 4))
       = ReviewSubmitted (ex_review ex_r3 ''u3'' 4 ''pending'')
   \<and> reviews (snd (createReview hex24 ex_dbl ''u3'' ex_r3 ex_rdb5 (ex_review_body 4)))
       = reviews ex_rdb5 @ [ex_review ex_r3 ''u3'' 4 ''pending'']
   \<and> stored_rating (snd (createReview hex24 ex_dbl ''u3'' ex_r3 ex_rdb5 (ex_review_body 4))) ex_pid
       = Some (3, 2)
   \<and> createReview hex24 ex_dbl ''u3'' ex_r3 ex_rdb5 (ex_review_body 9) = (RatingOutOfRange, ex_rdb5)"
proof -
  let ?c = "createReview hex24 ex_dbl ''u3'' ex_r3 ex_rdb5 (ex_review_body 4)"
  have f: "fst ?c = ReviewSubmitted (ex_review ex_r3 ''u3'' 4 ''pending'')"
    by (simp add: createReview_def ex_rdb5_eq ex_review_body_def ex_review_def ex_hex24 Let_def)
  have s: "stored_rating ex_rdb5 ex_pid = Some (3, 2)"
    by (simp add: stored_rating_def ex_rdb5_eq)
  have a: "approved_ratings (reviews ex_rdb5) (ObjectId ex_pid) = [5]"
    by (simp add: ex_rdb5_eq approved_ratings_def ex_review_def)
  note t = submission_leaves_rating[of hex24 ex_dbl "''u3''" ex_r3 ex_rdb5 "ex_review_body 4"]
  from t have p: "products (snd ?c) = products ex_rdb5" by (elim conjE)
  from t have "\<forall>rv. fst ?c = ReviewSubmitted rv \<longrightarrow>
         review_status rv = ''pending''
         \<and> reviews (snd ?c) = reviews ex_rdb5 @ [rv]
         \<and> (\<forall>v. approved_ratings (reviews (snd ?c)) v = approved_ratings (reviews ex_rdb5) v)"
    by (elim conjE)
  with f have r: "reviews (snd ?c) = reviews ex_rdb5 @ [ex_review ex_r3 ''u3'' 4 ''pending'']"
    by (elim allE[of _ "ex_review ex_r3 ''u3'' 4 ''pending''"]) (elim impE, assumption, elim conjE)
  from p s have s': "stored_rating (snd ?c) ex_pid = Some (3, 2)"
    by (simp add: stored_rating_def)
  let ?e = "createReview hex24 ex_dbl ''u3'' ex_r3 ex_rdb5 (ex_review_body 9)"
  have f9: "fst ?e = RatingOutOfRange"
    by (simp add: createReview_def ex_review_body_def)
  then have n9: "\<forall>rv. fst ?e \<noteq> ReviewSubmitted rv" by simp
  from submission_leaves_rating[of hex24 ex_dbl "''u3''" ex_r3 ex_rdb5 "ex_review_body 9"]
  have "(\<forall>rv. fst ?e \<noteq> ReviewSubmitted rv) \<longrightarrow> snd ?e = ex_rdb5"
    by (elim conjE)
  with n9 have "snd ?e = ex_rdb5" by (rule rev_mp)
  with f9 have e: "?e = (RatingOutOfRange, ex_rdb5)" by (simp add: prod_eq_iff)
  from s a f r s' e show ?thesis by (intro conjI)
qed

end
